theory Spec2Isabelle
  imports Main "HOL-Library.Word" "HOL-Library.Signed_Division"
begin

section \<open>Values of the Go runtime and of the libraries the package calls\<close>

text \<open>
  The package \<^verbatim>\<open>profilecreds\<close> consists of \<^verbatim>\<open>cache.go\<close> (the \<^verbatim>\<open>Cache\<close> interface and
  \<^verbatim>\<open>FileCache\<close>) and the provider file (\<^verbatim>\<open>AssumeRoleProfileProvider\<close>, \<^verbatim>\<open>profile\<close>,
  \<^verbatim>\<open>creds\<close>). Everything it calls outside itself (the file system, the clock, the ini
  reader, \<^verbatim>\<open>encoding/json\<close>, the STS client, the terminal prompt) is a field of the record
  \<open>world\<close> below, so every theorem holds for any behaviour of these collaborators.
  A Go pointer \<^verbatim>\<open>*T\<close> is \<open>T option\<close> (\<open>None\<close> is \<^verbatim>\<open>nil\<close>); a runtime panic is an
  explicit result.
\<close>

datatype error = Error string

subsection \<open>\<^verbatim>\<open>time.Time\<close> and \<^verbatim>\<open>time.Duration\<close>\<close>

datatype Location = UTC | Local | FixedZone string int

text \<open>An instant (nanoseconds since the Unix epoch) together with its location.\<close>

record Time =
  unixNanos :: int
  location :: Location

text \<open>The zero \<^verbatim>\<open>time.Time\<close>: January 1, year 1, 00:00:00 UTC.\<close>

definition Time_zero :: Time where
  "Time_zero = \<lparr>unixNanos = - 62135596800000000000, location = UTC\<rparr>"

definition Time_UTC :: "Time \<Rightarrow> Time" where
  "Time_UTC t = t\<lparr>location := UTC\<rparr>"

text \<open>\<^verbatim>\<open>t.Before(u)\<close> compares the instants only, and strictly.\<close>

definition Time_Before :: "Time \<Rightarrow> Time \<Rightarrow> bool" where
  "Time_Before t u \<longleftrightarrow> unixNanos t < unixNanos u"

text \<open>\<^verbatim>\<open>t.UnixNano()\<close> is computed in \<^verbatim>\<open>int64\<close>.\<close>

definition Time_UnixNano :: "Time \<Rightarrow> int" where
  "Time_UnixNano t = sint (word_of_int (unixNanos t) :: 64 word)"

text \<open>\<^verbatim>\<open>time.Duration\<close> counts nanoseconds.\<close>

definition Second :: int where
  "Second = 1000000000"

definition Minute :: int where
  "Minute = 60 * Second"

text \<open>\<^verbatim>\<open>fmt.Sprintf("%d", n)\<close>.\<close>

fun decimal :: "nat \<Rightarrow> string" where
  "decimal n =
     (if n < 10 then [''0123456789'' ! n]
      else decimal (n div 10) @ [''0123456789'' ! (n mod 10)])"

declare decimal.simps [simp del]

definition Sprintf_d :: "int \<Rightarrow> string" where
  "Sprintf_d i = (if i < 0 then CHR ''-'' # decimal (nat (- i)) else decimal (nat i))"

subsection \<open>\<^verbatim>\<open>credentials.Value\<close> and the STS request and response\<close>

record credentials_Value =
  AccessKeyID :: string
  SecretAccessKey :: string
  SessionToken :: string
  Value_ProviderName :: string

record sts_AssumeRoleInput =
  DurationSeconds :: "int option"
  RoleArn :: "string option"
  Input_RoleSessionName :: "string option"
  ExternalId :: "string option"
  SerialNumber :: "string option"
  TokenCode :: "string option"

record sts_Credentials =
  sts_AccessKeyId :: "string option"
  sts_SecretAccessKey :: "string option"
  sts_SessionToken :: "string option"
  sts_Expiration :: "Time option"

record sts_AssumeRoleOutput =
  Output_Credentials :: "sts_Credentials option"

text \<open>
  What the outside observes of a call of \<^verbatim>\<open>Retrieve\<close>: each invocation of the token source
  and each role-assumption request, with the source profile whose credentials sign it.
\<close>

datatype event = GetTokenCall | AssumeRoleCall string sts_AssumeRoleInput

text \<open>
  \<^verbatim>\<open>type TokenSource func() (string, error)\<close>: its answer may depend on what has happened
  so far.
\<close>

type_synonym TokenSource = "event list \<Rightarrow> string \<times> error option"

subsection \<open>\<^verbatim>\<open>encoding/json\<close>, \<^verbatim>\<open>go-ini\<close>, files\<close>

text \<open>
  A call of \<^verbatim>\<open>json.Unmarshal\<close> or \<^verbatim>\<open>Decoder.Decode\<close> into a fresh target either rejects
  the input before storing anything (\<open>Invalid\<close>: the input is not syntactically valid
  JSON, the target keeps its value), or stores into the target (\<open>Decoded\<close>: what the
  target holds afterwards, and the error returned, if any). A target of map type is a
  \<open>map option\<close>: decoding the JSON value \<^verbatim>\<open>null\<close> sets a Go map to \<^verbatim>\<open>nil\<close>.
\<close>

datatype 'a decoded = Invalid error | Decoded 'a "error option"

text \<open>\<^verbatim>\<open>section.GetKey(k)\<close> followed by \<^verbatim>\<open>.String()\<close>, and \<^verbatim>\<open>config.GetSection(s)\<close>.\<close>

type_synonym ini_Section = "string \<Rightarrow> error + string"
type_synonym ini_File = "string \<Rightarrow> error + ini_Section"

text \<open>
  A path of the file system: nothing there (and whether a file may be created), or a
  file with its permissions and content.
\<close>

datatype fnode = Absent bool | Present bool bool string

section \<open>The data model of the package\<close>

record profile =
  Name :: string
  RoleARN :: string
  SourceProfileName :: string
  RoleSessionName :: "string option"
  MFASerial :: "string option"
  ExternalID :: "string option"

record creds =
  Credentials :: credentials_Value
  Expiration :: Time
  Profile :: profile

text \<open>The zero values that \<^verbatim>\<open>var cached creds\<close> declares.\<close>

definition Value_zero :: credentials_Value where
  "Value_zero =
     \<lparr>AccessKeyID = '''', SecretAccessKey = '''', SessionToken = '''', Value_ProviderName = ''''\<rparr>"

definition profile_zero :: profile where
  "profile_zero =
     \<lparr>Name = '''', RoleARN = '''', SourceProfileName = '''', RoleSessionName = None,
      MFASerial = None, ExternalID = None\<rparr>"

definition creds_zero :: creds where
  "creds_zero = \<lparr>Credentials = Value_zero, Expiration = Time_zero, Profile = profile_zero\<rparr>"

definition ProviderName :: string where
  "ProviderName = ''AssumeRoleProfileProvider''"

text \<open>
  The world of a call: the collaborators' behaviour, the clock and the count of readings
  taken, the file system, the package variables \<^verbatim>\<open>DefaultDuration\<close> and
  \<^verbatim>\<open>PromptTokenSource\<close> (taken to hold a function, as the package leaves it), and the
  trace of calls made to the outside so far.
\<close>

record world =
  homedir_Dir :: "error + string"
  ini_Load :: "string \<Rightarrow> error + ini_File"
  clock :: "nat \<Rightarrow> int"
  ticks :: nat
  os_TempDir :: string
  path_Join :: "string \<Rightarrow> string \<Rightarrow> string"
  files :: "string \<Rightarrow> fnode"
  json_Decode_map :: "string \<Rightarrow> (string \<rightharpoonup> string) option decoded"
  json_Encode_map :: "(string \<rightharpoonup> string) option \<Rightarrow> string"
  json_Marshal_creds :: "creds \<Rightarrow> string \<times> error option"
  json_Unmarshal_creds :: "string \<Rightarrow> creds decoded"
  sts_AssumeRole :: "event list \<Rightarrow> string \<Rightarrow> sts_AssumeRoleInput \<Rightarrow> error + sts_AssumeRoleOutput"
  PromptTokenSource :: TokenSource
  DefaultDuration :: int
  trace :: "event list"

text \<open>\<^verbatim>\<open>time.Now()\<close>: each call is a new reading of the clock, in the local zone.\<close>

definition time_Now :: "world \<Rightarrow> Time \<times> world" where
  "time_Now w = (\<lparr>unixNanos = clock w (ticks w), location = Local\<rparr>, w\<lparr>ticks := ticks w + 1\<rparr>)"

text \<open>\<^verbatim>\<open>os.Open(name)\<close>, read-only: the content, or an error.\<close>

definition os_Open :: "world \<Rightarrow> string \<Rightarrow> error + string" where
  "os_Open w name =
     (case files w name of
        Absent _ \<Rightarrow> Inl (Error ''no such file or directory'')
      | Present r _ content \<Rightarrow> if r then Inr content else Inl (Error ''permission denied''))"

text \<open>\<^verbatim>\<open>os.OpenFile(name, os.O_RDWR|os.O_CREATE|os.O_TRUNC, 0666)\<close>: the file is created or
  emptied, or an error.\<close>

definition os_OpenFile_trunc :: "world \<Rightarrow> string \<Rightarrow> error + world" where
  "os_OpenFile_trunc w name =
     (case files w name of
        Absent creatable \<Rightarrow>
          if creatable then Inr (w\<lparr>files := (files w)(name := Present True True '''')\<rparr>)
          else Inl (Error ''no such file or directory'')
      | Present r wr _ \<Rightarrow>
          if r \<and> wr then Inr (w\<lparr>files := (files w)(name := Present r wr '''')\<rparr>)
          else Inl (Error ''permission denied''))"

section \<open>\<^verbatim>\<open>cache.go\<close>\<close>

text \<open>The mutex of \<^verbatim>\<open>FileCache\<close> has no effect on a single caller and is left out.\<close>

record FileCache =
  data :: "(string \<rightharpoonup> string) option"
  filename :: string

definition NewFileCache :: "string \<Rightarrow> world \<Rightarrow> FileCache" where
  "NewFileCache fname w =
     (let fname = (if fname = '''' then path_Join w (os_TempDir w) ''credentials'' else fname)
      in \<lparr>data = None, filename = fname\<rparr>)"

definition readConf :: "FileCache \<Rightarrow> world \<Rightarrow> FileCache" where
  "readConf f w =
     (let f = f\<lparr>data := Some Map.empty\<rparr>
      in case os_Open w (filename f) of
           Inl err \<Rightarrow> f
         | Inr content \<Rightarrow>
             (case json_Decode_map w content of
                Invalid err \<Rightarrow> f
              | Decoded m err \<Rightarrow> f\<lparr>data := m\<rparr>))"

definition writeConf :: "FileCache \<Rightarrow> world \<Rightarrow> world" where
  "writeConf f w =
     (case os_OpenFile_trunc w (filename f) of
        Inl err \<Rightarrow> w
      | Inr w' \<Rightarrow>
          (case files w' (filename f) of
             Present r wr _ \<Rightarrow>
               w'\<lparr>files := (files w')(filename f := Present r wr (json_Encode_map w' (data f)))\<rparr>
           | Absent _ \<Rightarrow> w'))"

text \<open>\<^verbatim>\<open>Set\<close>: storing into a \<^verbatim>\<open>nil\<close> map would panic (\<open>None\<close>).\<close>

definition FileCache_Set :: "FileCache \<Rightarrow> string \<Rightarrow> string \<Rightarrow> world \<Rightarrow> (FileCache \<times> world) option" where
  "FileCache_Set f key val w =
     (let f = (case data f of None \<Rightarrow> readConf f w | Some _ \<Rightarrow> f)
      in case data f of
           None \<Rightarrow> None
         | Some m \<Rightarrow>
             (let f = f\<lparr>data := Some (m(key \<mapsto> val))\<rparr>
              in Some (f, writeConf f w)))"

text \<open>\<^verbatim>\<open>Get\<close>: reading a \<^verbatim>\<open>nil\<close> map is allowed in Go and finds nothing.\<close>

definition FileCache_Get :: "FileCache \<Rightarrow> string \<Rightarrow> world \<Rightarrow> (string \<times> bool) \<times> FileCache" where
  "FileCache_Get f key w =
     (let f = (case data f of None \<Rightarrow> readConf f w | Some _ \<Rightarrow> f)
      in case data f of
           None \<Rightarrow> (('''', False), f)
         | Some m \<Rightarrow>
             (case m key of
                None \<Rightarrow> (('''', False), f)
              | Some v \<Rightarrow> ((v, True), f)))"

text \<open>
  The interface \<^verbatim>\<open>Cache\<close> has the implementation of this package and those of the
  embedder. An embedder's cache is given by how it answers \<^verbatim>\<open>Get\<close> after the calls made
  on it so far.
\<close>

datatype cache_call = GetCall string | SetCall string string

record OtherCache =
  calls :: "cache_call list"
  answer :: "cache_call list \<Rightarrow> string \<Rightarrow> string \<times> bool"

datatype Cache = FileCacheImpl FileCache | OtherCacheImpl OtherCache

fun Cache_Get :: "Cache \<Rightarrow> string \<Rightarrow> world \<Rightarrow> (string \<times> bool) \<times> Cache" where
  "Cache_Get (FileCacheImpl f) key w =
     (let (r, f') = FileCache_Get f key w in (r, FileCacheImpl f'))"
| "Cache_Get (OtherCacheImpl c) key w =
     (answer c (calls c) key, OtherCacheImpl (c\<lparr>calls := calls c @ [GetCall key]\<rparr>))"

fun Cache_Set :: "Cache \<Rightarrow> string \<Rightarrow> string \<Rightarrow> world \<Rightarrow> (Cache \<times> world) option" where
  "Cache_Set (FileCacheImpl f) key val w =
     (case FileCache_Set f key val w of
        None \<Rightarrow> None
      | Some (f', w') \<Rightarrow> Some (FileCacheImpl f', w'))"
| "Cache_Set (OtherCacheImpl c) key val w =
     Some (OtherCacheImpl (c\<lparr>calls := calls c @ [SetCall key val]\<rparr>), w)"

section \<open>The provider\<close>

text \<open>
  The embedded \<^verbatim>\<open>credentials.Expiry\<close> is never read or written by this package and is
  left out. The fields \<open>Cache\<close> and \<open>GetToken\<close> are \<^verbatim>\<open>nil\<close> unless an option sets them.
\<close>

record AssumeRoleProfileProvider =
  Duration :: int
  ProfileName :: string
  Cache :: "Cache option"
  GetToken :: "TokenSource option"
  ExpiryWindow :: int

text \<open>
  \<^verbatim>\<open>NewCredentials\<close> wraps the provider it builds in the SDK's \<^verbatim>\<open>credentials.Credentials\<close>;
  the model returns the provider itself.
\<close>

definition NewCredentials ::
  "string \<Rightarrow> (AssumeRoleProfileProvider \<Rightarrow> AssumeRoleProfileProvider) list \<Rightarrow> world
     \<Rightarrow> AssumeRoleProfileProvider" where
  "NewCredentials profileName options w =
     (let p = \<lparr>Duration = DefaultDuration w, ProfileName = profileName, Cache = None,
               GetToken = None, ExpiryWindow = 0\<rparr>
      in foldl (\<lambda>p option. option p) p options)"

definition loadProfile :: "AssumeRoleProfileProvider \<Rightarrow> world \<Rightarrow> error + profile" where
  "loadProfile p w =
     (case homedir_Dir w of
        Inl err \<Rightarrow> Inl err
      | Inr home \<Rightarrow>
     (case ini_Load w (home @ ''/.aws/config'') of
        Inl err \<Rightarrow> Inl err
      | Inr config \<Rightarrow>
     (case config (''profile '' @ ProfileName p) of
        Inl err \<Rightarrow> Inl err
      | Inr section \<Rightarrow>
     (let prof = profile_zero\<lparr>Name := ProfileName p\<rparr>
      in case section ''role_arn'' of
           Inl err \<Rightarrow> Inl err
         | Inr k \<Rightarrow>
     (let prof = prof\<lparr>RoleARN := k\<rparr>
      in case section ''source_profile'' of
           Inl err \<Rightarrow> Inl err
         | Inr k \<Rightarrow>
     (let prof = prof\<lparr>SourceProfileName := k\<rparr>;
          prof = (case section ''mfa_serial'' of
                    Inr k \<Rightarrow> prof\<lparr>MFASerial := Some k\<rparr> | Inl err \<Rightarrow> prof);
          prof = (case section ''external_id'' of
                    Inr k \<Rightarrow> prof\<lparr>ExternalID := Some k\<rparr> | Inl err \<Rightarrow> prof);
          prof = (case section ''role_session_name'' of
                    Inr k \<Rightarrow> prof\<lparr>RoleSessionName := Some k\<rparr> | Inl err \<Rightarrow> prof)
      in Inr prof))))))"

text \<open>
  \<^verbatim>\<open>loadCachedCreds\<close>: calling \<^verbatim>\<open>Get\<close> on a \<^verbatim>\<open>nil\<close> interface panics (\<open>None\<close>). The error
  of \<^verbatim>\<open>json.Unmarshal\<close> is dropped; the result is whatever the target then holds.
\<close>

definition loadCachedCreds ::
  "AssumeRoleProfileProvider \<Rightarrow> world \<Rightarrow> (creds \<times> AssumeRoleProfileProvider) option" where
  "loadCachedCreds p w =
     (case Cache p of
        None \<Rightarrow> None
      | Some c \<Rightarrow>
          (let ((cachedJSON, ok), c') = Cache_Get c ''credentials'' w;
               cached = (if ok
                         then (case json_Unmarshal_creds w cachedJSON of
                                 Invalid err \<Rightarrow> creds_zero
                               | Decoded v err \<Rightarrow> v)
                         else creds_zero)
           in Some (cached, p\<lparr>Cache := Some c'\<rparr>)))"

definition Match :: "creds \<Rightarrow> profile \<Rightarrow> bool" where
  "Match c p \<longleftrightarrow> Profile c = p"

definition IsExpired :: "creds \<Rightarrow> world \<Rightarrow> bool \<times> world" where
  "IsExpired c w =
     (let (now, w') = time_Now w
      in (Time_Before (Time_UTC (Expiration c)) (Time_UTC now), w'))"

text \<open>
  \<^verbatim>\<open>retrieve\<close> returns the credentials, the expiry and the error, or panics (\<open>None\<close>: a
  \<^verbatim>\<open>nil\<close> token source, or a \<^verbatim>\<open>nil\<close> pointer in the response). It receives the profile by
  value, so the session name it fills in stays local.
\<close>

definition retrieve ::
  "AssumeRoleProfileProvider \<Rightarrow> profile \<Rightarrow> world
     \<Rightarrow> (credentials_Value \<times> Time \<times> error option) option \<times> AssumeRoleProfileProvider \<times> world" where
  "retrieve p prof w =
     (let sourceCreds = SourceProfileName prof;
          (prof, w) =
             (if RoleSessionName prof = None
              then (let (now, w') = time_Now w
                    in (prof\<lparr>RoleSessionName := Some (Sprintf_d (Time_UnixNano (Time_UTC now)))\<rparr>, w'))
              else (prof, w));
          p = (if Duration p = 0 then p\<lparr>Duration := DefaultDuration w\<rparr> else p);
          params =
             \<lparr>DurationSeconds = Some (Duration p sdiv Second),
              RoleArn = Some (RoleARN prof),
              Input_RoleSessionName = RoleSessionName prof,
              ExternalId = ExternalID prof,
              SerialNumber = None,
              TokenCode = None\<rparr>;
          mfa =
             (if MFASerial prof \<noteq> None
              then (let params = params\<lparr>SerialNumber := MFASerial prof\<rparr>
                    in case GetToken p of
                         None \<Rightarrow> Inl (None, w)
                       | Some getToken \<Rightarrow>
                           (let (token, err) = getToken (trace w);
                                w = w\<lparr>trace := trace w @ [GetTokenCall]\<rparr>
                            in case err of
                                 Some e \<Rightarrow>
                                   (let (now, w) = time_Now w
                                    in Inl (Some (Value_zero\<lparr>Value_ProviderName := ProviderName\<rparr>,
                                                  now, Some e), w))
                               | None \<Rightarrow> Inr (params\<lparr>TokenCode := Some token\<rparr>, w)))
              else Inr (params, w))
      in case mfa of
           Inl (r, w) \<Rightarrow> (r, p, w)
         | Inr (params, w) \<Rightarrow>
             (let roleOutput = sts_AssumeRole w (trace w) sourceCreds params;
                  w = w\<lparr>trace := trace w @ [AssumeRoleCall sourceCreds params]\<rparr>
              in case roleOutput of
                   Inl err \<Rightarrow>
                     (let (now, w) = time_Now w
                      in (Some (Value_zero\<lparr>Value_ProviderName := ProviderName\<rparr>, now, Some err),
                          p, w))
                 | Inr out \<Rightarrow>
                     (case Output_Credentials out of
                        None \<Rightarrow> (None, p, w)
                      | Some c \<Rightarrow>
                          (case (sts_AccessKeyId c, sts_SecretAccessKey c, sts_SessionToken c,
                                 sts_Expiration c) of
                             (Some ak, Some sk, Some st, Some exp) \<Rightarrow>
                               (Some (\<lparr>AccessKeyID = ak, SecretAccessKey = sk, SessionToken = st,
                                       Value_ProviderName = ProviderName\<rparr>,
                                      Time_UTC exp, None), p, w)
                           | _ \<Rightarrow> (None, p, w)))))"

text \<open>What a call of \<^verbatim>\<open>Retrieve\<close> gives its caller: the two results, or a panic.\<close>

datatype outcome = Returned credentials_Value "error option" | Panicked

text \<open>
  \<^verbatim>\<open>Retrieve\<close>, with the provider and the world as it leaves them. The second conjunct of
  the cache test is evaluated (and the clock read) only when the first holds.
\<close>

definition Retrieve ::
  "AssumeRoleProfileProvider \<Rightarrow> world \<Rightarrow> outcome \<times> AssumeRoleProfileProvider \<times> world" where
  "Retrieve p w =
     (case loadProfile p w of
        Inl err \<Rightarrow> (Returned (Value_zero\<lparr>Value_ProviderName := ProviderName\<rparr>) (Some err), p, w)
      | Inr prof \<Rightarrow>
     (case loadCachedCreds p w of
        None \<Rightarrow> (Panicked, p, w)
      | Some (cachedCreds, p) \<Rightarrow>
     (let (hit, w) =
             (if Match cachedCreds prof
              then (let (expired, w') = IsExpired cachedCreds w in (\<not> expired, w'))
              else (False, w))
      in if hit then (Returned (Credentials cachedCreds) None, p, w)
         else
     (let p = (case GetToken p of None \<Rightarrow> p\<lparr>GetToken := Some (PromptTokenSource w)\<rparr> | Some _ \<Rightarrow> p)
      in case retrieve p prof w of
           (None, p, w) \<Rightarrow> (Panicked, p, w)
         | (Some (credentials, expiration, err), p, w) \<Rightarrow>
     (let cachedCreds = \<lparr>Credentials = credentials, Expiration = expiration, Profile = prof\<rparr>
      in case json_Marshal_creds w cachedCreds of
           (cachedJSON, None) \<Rightarrow>
             (case Cache p of
                None \<Rightarrow> (Panicked, p, w)
              | Some c \<Rightarrow>
                  (case Cache_Set c ''credentials'' cachedJSON w of
                     None \<Rightarrow> (Panicked, p, w)
                   | Some (c', w') \<Rightarrow> (Returned (Credentials cachedCreds) None, p\<lparr>Cache := Some c'\<rparr>, w')))
         | (cachedJSON, Some err') \<Rightarrow> (Returned (Credentials cachedCreds) None, p, w))))))"

section \<open>Notions used to state the properties\<close>

text \<open>
  The definitions of this section name the stages of \<^verbatim>\<open>Retrieve\<close> and \<^verbatim>\<open>retrieve\<close>, so
  that a theorem can speak of them. Each is tied to the code by a lemma of the next
  sections (\<open>Retrieve_hit\<close>, \<open>Retrieve_miss\<close>, \<open>retrieve_exchange\<close>, \<open>retrieve_no_MFA\<close>,
  \<open>retrieve_token_error\<close>, \<open>retrieve_token_ok\<close>, \<open>loadCachedCreds_eq\<close>).
\<close>

text \<open>The test \<^verbatim>\<open>cachedCreds.Match(prof) && !cachedCreds.IsExpired()\<close>, and the world after
  it: the clock is read only when the profiles match.\<close>

definition cache_hit :: "creds \<Rightarrow> profile \<Rightarrow> world \<Rightarrow> bool" where
  "cache_hit c prof w \<longleftrightarrow> Match c prof \<and> \<not> fst (IsExpired c w)"

definition after_cache_test :: "creds \<Rightarrow> profile \<Rightarrow> world \<Rightarrow> world" where
  "after_cache_test c prof w = (if Match c prof then snd (IsExpired c w) else w)"

text \<open>\<^verbatim>\<open>if p.GetToken == nil { p.GetToken = PromptTokenSource }\<close>.\<close>

definition with_default_token :: "AssumeRoleProfileProvider \<Rightarrow> world \<Rightarrow> AssumeRoleProfileProvider" where
  "with_default_token p w =
     (case GetToken p of None \<Rightarrow> p\<lparr>GetToken := Some (PromptTokenSource w)\<rparr> | Some _ \<Rightarrow> p)"

text \<open>The part of \<^verbatim>\<open>retrieve\<close> from the call of \<^verbatim>\<open>client.AssumeRole\<close> on.\<close>

definition exchange ::
  "AssumeRoleProfileProvider \<Rightarrow> string \<Rightarrow> sts_AssumeRoleInput \<Rightarrow> world
     \<Rightarrow> (credentials_Value \<times> Time \<times> error option) option \<times> AssumeRoleProfileProvider \<times> world" where
  "exchange p sourceCreds params w =
     (let roleOutput = sts_AssumeRole w (trace w) sourceCreds params;
          w = w\<lparr>trace := trace w @ [AssumeRoleCall sourceCreds params]\<rparr>
      in case roleOutput of
           Inl err \<Rightarrow>
             (let (now, w) = time_Now w
              in (Some (Value_zero\<lparr>Value_ProviderName := ProviderName\<rparr>, now, Some err), p, w))
         | Inr out \<Rightarrow>
             (case Output_Credentials out of
                None \<Rightarrow> (None, p, w)
              | Some c \<Rightarrow>
                  (case (sts_AccessKeyId c, sts_SecretAccessKey c, sts_SessionToken c,
                         sts_Expiration c) of
                     (Some ak, Some sk, Some st, Some exp) \<Rightarrow>
                       (Some (\<lparr>AccessKeyID = ak, SecretAccessKey = sk, SessionToken = st,
                               Value_ProviderName = ProviderName\<rparr>,
                              Time_UTC exp, None), p, w)
                   | _ \<Rightarrow> (None, p, w))))"

text \<open>
  The part of \<^verbatim>\<open>retrieve\<close> before the MFA test: the world after the session name is made
  up, the provider after the default duration is filled in, and the request built from
  them.
\<close>

definition session_world :: "profile \<Rightarrow> world \<Rightarrow> world" where
  "session_world prof w = (if RoleSessionName prof = None then snd (time_Now w) else w)"

definition with_default_duration :: "AssumeRoleProfileProvider \<Rightarrow> world \<Rightarrow> AssumeRoleProfileProvider" where
  "with_default_duration p w = (if Duration p = 0 then p\<lparr>Duration := DefaultDuration w\<rparr> else p)"

definition request_params ::
  "AssumeRoleProfileProvider \<Rightarrow> profile \<Rightarrow> world \<Rightarrow> sts_AssumeRoleInput" where
  "request_params p prof w =
     \<lparr>DurationSeconds = Some (Duration (with_default_duration p w) sdiv Second),
      RoleArn = Some (RoleARN prof),
      Input_RoleSessionName =
        (case RoleSessionName prof of
           None \<Rightarrow> Some (Sprintf_d (Time_UnixNano (Time_UTC (fst (time_Now w)))))
         | Some n \<Rightarrow> Some n),
      ExternalId = ExternalID prof,
      SerialNumber = None,
      TokenCode = None\<rparr>"

text \<open>The record that \<^verbatim>\<open>loadCachedCreds\<close> makes of the answer of \<^verbatim>\<open>Get\<close>.\<close>

definition decode_entry :: "world \<Rightarrow> string \<times> bool \<Rightarrow> creds" where
  "decode_entry w r =
     (case r of
        (cachedJSON, ok) \<Rightarrow>
          if ok
          then (case json_Unmarshal_creds w cachedJSON of
                  Invalid err \<Rightarrow> creds_zero
                | Decoded v err \<Rightarrow> v)
          else creds_zero)"

text \<open>
  A cache answers a second \<^verbatim>\<open>Get\<close> of the key as the first. A \<^verbatim>\<open>FileCache\<close> does
  (lemma \<open>FileCache_Get_again\<close>); for an embedder's cache it is a condition on its answers.
\<close>

definition Get_repeatable :: "Cache \<Rightarrow> string \<Rightarrow> bool" where
  "Get_repeatable c key =
     (case c of
        FileCacheImpl f \<Rightarrow> True
      | OtherCacheImpl oc \<Rightarrow> answer oc (calls oc @ [GetCall key]) key = answer oc (calls oc) key)"

text \<open>
  The last step of \<^verbatim>\<open>Retrieve\<close>:
  \<^verbatim>\<open>if cachedJSON, err := json.Marshal(cachedCreds); err == nil { p.Cache.Set(...) }\<close>,
  given the result of \<^verbatim>\<open>json.Marshal\<close>.
\<close>

definition persist :: "Cache \<Rightarrow> string \<times> error option \<Rightarrow> world \<Rightarrow> (Cache \<times> world) option" where
  "persist c m w =
     (case m of
        (cachedJSON, None) \<Rightarrow> Cache_Set c ''credentials'' cachedJSON w
      | (cachedJSON, Some err) \<Rightarrow> Some (c, w))"

text \<open>
  \<^verbatim>\<open>Set\<close> on a \<^verbatim>\<open>FileCache\<close> stores into \<^verbatim>\<open>f.data\<close> after \<^verbatim>\<open>readConf\<close>; that map is \<^verbatim>\<open>nil\<close>,
  and the store panics, exactly when the backing file decoded to the JSON value \<^verbatim>\<open>null\<close>
  (lemma \<open>FileCache_Set_panics\<close>). \<open>Cache_usable\<close> excludes that one state of a file
  cache; \<open>Set_ready\<close> says that the map is there already.
\<close>

definition Cache_usable :: "Cache \<Rightarrow> world \<Rightarrow> bool" where
  "Cache_usable c w =
     (case c of
        FileCacheImpl f \<Rightarrow>
          (case data f of Some m \<Rightarrow> True | None \<Rightarrow> data (readConf f w) \<noteq> None)
      | OtherCacheImpl oc \<Rightarrow> True)"

definition Set_ready :: "Cache \<Rightarrow> bool" where
  "Set_ready c = (case c of FileCacheImpl f \<Rightarrow> data f \<noteq> None | OtherCacheImpl oc \<Rightarrow> True)"

text \<open>
  A cache holds an entry: the map of a file cache has it; for an embedder's cache, the last
  call made on it stored it.
\<close>

definition holds_entry :: "Cache \<Rightarrow> string \<Rightarrow> string \<Rightarrow> bool" where
  "holds_entry c key val =
     (case c of
        FileCacheImpl f \<Rightarrow> (case data f of None \<Rightarrow> False | Some m \<Rightarrow> m key = Some val)
      | OtherCacheImpl oc \<Rightarrow> calls oc \<noteq> [] \<and> last (calls oc) = SetCall key val)"

text \<open>
  The states of a file cache that hold no usable record: the backing file is missing or
  unreadable (\<^verbatim>\<open>os.Open\<close> fails), or is not valid JSON, or it decodes to a map in which
  the entry \<open>credentials\<close> is missing or is not valid JSON.
\<close>

definition cache_broken :: "world \<Rightarrow> FileCache \<Rightarrow> bool" where
  "cache_broken w f =
     (case os_Open w (filename f) of
        Inl err \<Rightarrow> True
      | Inr content \<Rightarrow>
          (case json_Decode_map w content of
             Invalid err \<Rightarrow> True
           | Decoded None err \<Rightarrow> False
           | Decoded (Some m) err \<Rightarrow>
               (case m ''credentials'' of
                  None \<Rightarrow> True
                | Some cachedJSON \<Rightarrow>
                    (case json_Unmarshal_creds w cachedJSON of
                       Invalid err \<Rightarrow> True
                     | Decoded v err \<Rightarrow> False))))"

section \<open>A concrete configuration\<close>

text \<open>
  The configuration file of the README, with a second profile that names an MFA device;
  a file cache at the default location that holds one record, valid until 2000; a clock that
  starts at 1000; a role-assumption service that grants every request. The variants change
  one thing each.
\<close>

definition section_prod :: ini_Section where
  "section_prod k =
     (if k = ''role_arn'' then Inr ''arn:aws:iam::1:role/X''
      else if k = ''source_profile'' then Inr ''dev''
      else Inl (Error ''key does not exist''))"

definition section_secure :: ini_Section where
  "section_secure k =
     (if k = ''mfa_serial'' then Inr ''arn:aws:iam::1:mfa/Y'' else section_prod k)"

definition config_ex :: ini_File where
  "config_ex s =
     (if s = ''profile prod'' then Inr section_prod
      else if s = ''profile secure'' then Inr section_secure
      else Inl (Error ''section does not exist''))"

definition prof_prod :: profile where
  "prof_prod =
     \<lparr>Name = ''prod'', RoleARN = ''arn:aws:iam::1:role/X'', SourceProfileName = ''dev'',
      RoleSessionName = None, MFASerial = None, ExternalID = None\<rparr>"

definition prof_secure :: profile where
  "prof_secure = prof_prod\<lparr>Name := ''secure'', MFASerial := Some ''arn:aws:iam::1:mfa/Y''\<rparr>"

definition rec_ex :: creds where
  "rec_ex =
     \<lparr>Credentials = \<lparr>AccessKeyID = ''AKCACHED'', SecretAccessKey = ''SKCACHED'',
                      SessionToken = ''STCACHED'', Value_ProviderName = ProviderName\<rparr>,
      Expiration = \<lparr>unixNanos = 2000, location = UTC\<rparr>,
      Profile = prof_prod\<rparr>"

definition sts_ok :: sts_AssumeRoleOutput where
  "sts_ok =
     \<lparr>Output_Credentials =
        Some \<lparr>sts_AccessKeyId = Some ''AK'', sts_SecretAccessKey = Some ''SK'',
              sts_SessionToken = Some ''ST'',
              sts_Expiration = Some \<lparr>unixNanos = 5000, location = Local\<rparr>\<rparr>\<rparr>"

definition world_ex :: world where
  "world_ex =
     \<lparr>homedir_Dir = Inr ''/home/u'',
      ini_Load = (\<lambda>path. if path = ''/home/u/.aws/config'' then Inr config_ex
                          else Inl (Error ''no such file or directory'')),
      clock = (\<lambda>n. 1000 + int n),
      ticks = 0,
      os_TempDir = ''/tmp'',
      path_Join = (\<lambda>a b. a @ ''/'' @ b),
      files = (\<lambda>name. if name = ''/tmp/credentials'' then Present True True ''{cache}''
                        else Absent True),
      json_Decode_map = (\<lambda>s. if s = ''{cache}'' then Decoded (Some [''credentials'' \<mapsto> ''{record}'']) None
                                else Invalid (Error ''invalid character'')),
      json_Encode_map = (\<lambda>m. ''{written}''),
      json_Marshal_creds = (\<lambda>c. (''{fresh}'', None)),
      json_Unmarshal_creds = (\<lambda>s. if s = ''{record}'' then Decoded rec_ex None
                                     else Invalid (Error ''invalid character'')),
      sts_AssumeRole = (\<lambda>tr src params. Inr sts_ok),
      PromptTokenSource = (\<lambda>tr. (''123456'', None)),
      DefaultDuration = 15 * Minute,
      trace = []\<rparr>"

definition provider_ex :: "string \<Rightarrow> AssumeRoleProfileProvider" where
  "provider_ex name =
     NewCredentials name [\<lambda>p. p\<lparr>Cache := Some (FileCacheImpl (NewFileCache [] world_ex))\<rparr>] world_ex"

definition world_empty :: world where
  "world_empty = world_ex\<lparr>files := (\<lambda>name. Absent True)\<rparr>"

definition world_token_fails :: world where
  "world_token_fails = world_empty\<lparr>PromptTokenSource := (\<lambda>tr. ([], Some (Error ''EOF'')))\<rparr>"

definition world_boundary :: world where
  "world_boundary = world_ex\<lparr>clock := (\<lambda>n. 2000)\<rparr>"

definition world_late :: world where
  "world_late = world_ex\<lparr>clock := (\<lambda>n. 3000 + int n)\<rparr>"

definition world_sts_fails :: world where
  "world_sts_fails =
     world_late\<lparr>sts_AssumeRole := (\<lambda>tr src params. Inl (Error ''AccessDenied''))\<rparr>"

definition world_corrupt :: world where
  "world_corrupt = world_ex\<lparr>files := (\<lambda>name. Present True True ''{cache'')\<rparr>"

definition section_changed :: ini_Section where
  "section_changed k = (if k = ''external_id'' then Inr ''123'' else section_prod k)"

definition world_changed :: world where
  "world_changed =
     world_ex\<lparr>ini_Load := (\<lambda>path. Inr (\<lambda>s. if s = ''profile prod'' then Inr section_changed
                                             else Inl (Error ''section does not exist'')))\<rparr>"

definition provider_window :: AssumeRoleProfileProvider where
  "provider_window = (provider_ex ''prod'')\<lparr>ExpiryWindow := 1500\<rparr>"

definition fresh_Value :: credentials_Value where
  "fresh_Value =
     \<lparr>AccessKeyID = ''AK'', SecretAccessKey = ''SK'', SessionToken = ''ST'',
      Value_ProviderName = ProviderName\<rparr>"

definition world_null :: world where
  "world_null =
     world_ex\<lparr>files := (\<lambda>name. Present True True ''null''),
              json_Decode_map := (\<lambda>s. if s = ''null'' then Decoded None None
                                       else Invalid (Error ''invalid character''))\<rparr>"

definition world_null_sts_fails :: world where
  "world_null_sts_fails =
     world_null\<lparr>sts_AssumeRole := (\<lambda>tr src params. Inl (Error ''AccessDenied''))\<rparr>"

definition rec_half :: creds where
  "rec_half = rec_ex\<lparr>Credentials := (Credentials rec_ex)\<lparr>AccessKeyID := []\<rparr>\<rparr>"

definition world_illtyped :: world where
  "world_illtyped =
     world_ex\<lparr>json_Unmarshal_creds :=
       (\<lambda>s. if s = ''{record}''
            then Decoded rec_half (Some (Error ''cannot unmarshal number into Go struct field''))
            else Invalid (Error ''invalid character''))\<rparr>"

definition provider_empty_cache :: AssumeRoleProfileProvider where
  "provider_empty_cache =
     (provider_ex ''prod'')\<lparr>Cache :=
        Some (FileCacheImpl ((NewFileCache [] world_ex)\<lparr>data := Some Map.empty\<rparr>))\<rparr>"

section \<open>Basic facts\<close>

subsection \<open>The clock and the file cache\<close>

lemma time_Now_fields [simp]:
  "trace (snd (time_Now w)) = trace w"
  "ticks (snd (time_Now w)) = ticks w + 1"
  "fst (time_Now w) = \<lparr>unixNanos = clock w (ticks w), location = Local\<rparr>"
  by (simp_all add: time_Now_def)

lemma IsExpired_eq:
  "IsExpired c w = (unixNanos (Expiration c) < clock w (ticks w), snd (time_Now w))"
  by (simp add: IsExpired_def time_Now_def Time_Before_def Time_UTC_def)

lemma writeConf_trace [simp]: "trace (writeConf f w) = trace w"
  by (simp add: writeConf_def os_OpenFile_trunc_def split: fnode.splits sum.splits)

lemma FileCache_Set_returns: "data f \<noteq> None \<Longrightarrow> FileCache_Set f k v w \<noteq> None"
  by (auto simp add: FileCache_Set_def Let_def split: option.splits)

lemma FileCache_Set_panics:
  "FileCache_Set f k v w = None \<longleftrightarrow> data f = None \<and> data (readConf f w) = None"
  by (auto simp add: FileCache_Set_def Let_def split: option.splits)

lemma Cache_usable_ready: "Cache_usable c w \<Longrightarrow> Set_ready (snd (Cache_Get c key w))"
  by (cases c)
    (auto simp add: Cache_usable_def Set_ready_def FileCache_Get_def Let_def split_beta
      split: option.splits)

lemma Cache_Set_returns: "Set_ready c \<Longrightarrow> Cache_Set c k v w \<noteq> None"
  using FileCache_Set_returns by (cases c) (auto simp add: Set_ready_def split: option.splits)

lemma Cache_Set_holds: "Cache_Set c key val w = Some (c', w') \<Longrightarrow> holds_entry c' key val"
  by (cases c) (auto simp add: holds_entry_def FileCache_Set_def Let_def split: option.splits)

lemma FileCache_Set_writes:
  assumes "FileCache_Set f key val w = Some (f', w')"
    and "os_OpenFile_trunc w (filename f) = Inr w1"
  shows "\<exists>r wr. files w' (filename f) = Present r wr (json_Encode_map w (data f'))"
  using assms
  by (auto simp add: FileCache_Set_def writeConf_def os_OpenFile_trunc_def readConf_def Let_def
      split: option.splits fnode.splits if_splits sum.splits decoded.splits)

lemma Cache_Set_trace: "Cache_Set c k v w = Some (c', w') \<Longrightarrow> trace w' = trace w"
  by (cases c) (auto simp add: FileCache_Set_def Let_def split: option.splits)

subsection \<open>The two branches of \<^verbatim>\<open>Retrieve\<close>\<close>

lemma Retrieve_hit:
  assumes "loadProfile p w = Inr prof" and "loadCachedCreds p w = Some (cached, p1)"
    and "cache_hit cached prof w"
  shows "Retrieve p w = (Returned (Credentials cached) None, p1, after_cache_test cached prof w)"
  using assms
  by (simp add: Retrieve_def cache_hit_def after_cache_test_def IsExpired_eq)

lemma Retrieve_miss:
  assumes "loadProfile p w = Inr prof" and "loadCachedCreds p w = Some (cached, p1)"
    and "\<not> cache_hit cached prof w"
  shows "Retrieve p w =
     (case retrieve (with_default_token p1 (after_cache_test cached prof w)) prof
           (after_cache_test cached prof w) of
        (None, p2, w2) \<Rightarrow> (Panicked, p2, w2)
      | (Some (credentials, expiration, err), p2, w2) \<Rightarrow>
          (case json_Marshal_creds w2
                  \<lparr>Credentials = credentials, Expiration = expiration, Profile = prof\<rparr> of
             (cachedJSON, None) \<Rightarrow>
               (case Cache p2 of
                  None \<Rightarrow> (Panicked, p2, w2)
                | Some c \<Rightarrow>
                    (case Cache_Set c ''credentials'' cachedJSON w2 of
                       None \<Rightarrow> (Panicked, p2, w2)
                     | Some (c', w') \<Rightarrow> (Returned credentials None, p2\<lparr>Cache := Some c'\<rparr>, w')))
           | (cachedJSON, Some err') \<Rightarrow> (Returned credentials None, p2, w2)))"
proof (cases "Match cached prof")
  case True
  with assms(3) have "unixNanos (Expiration cached) < clock w (ticks w)"
    by (simp add: cache_hit_def IsExpired_eq)
  with True assms(1,2) show ?thesis
    by (simp add: Retrieve_def IsExpired_eq after_cache_test_def with_default_token_def Let_def
        cong: prod.case_cong option.case_cong)
next
  case False
  with assms(1,2) show ?thesis
    by (simp add: Retrieve_def after_cache_test_def with_default_token_def Let_def
        cong: prod.case_cong option.case_cong)
qed

subsection \<open>The cases of \<^verbatim>\<open>retrieve\<close>\<close>

lemma retrieve_exchange:
  "retrieve p prof w =
     (let sourceCreds = SourceProfileName prof;
          (prof, w) =
             (if RoleSessionName prof = None
              then (let (now, w') = time_Now w
                    in (prof\<lparr>RoleSessionName := Some (Sprintf_d (Time_UnixNano (Time_UTC now)))\<rparr>, w'))
              else (prof, w));
          p = (if Duration p = 0 then p\<lparr>Duration := DefaultDuration w\<rparr> else p);
          params =
             \<lparr>DurationSeconds = Some (Duration p sdiv Second),
              RoleArn = Some (RoleARN prof),
              Input_RoleSessionName = RoleSessionName prof,
              ExternalId = ExternalID prof,
              SerialNumber = None,
              TokenCode = None\<rparr>;
          mfa =
             (if MFASerial prof \<noteq> None
              then (let params = params\<lparr>SerialNumber := MFASerial prof\<rparr>
                    in case GetToken p of
                         None \<Rightarrow> Inl (None, w)
                       | Some getToken \<Rightarrow>
                           (let (token, err) = getToken (trace w);
                                w = w\<lparr>trace := trace w @ [GetTokenCall]\<rparr>
                            in case err of
                                 Some e \<Rightarrow>
                                   (let (now, w) = time_Now w
                                    in Inl (Some (Value_zero\<lparr>Value_ProviderName := ProviderName\<rparr>,
                                                  now, Some e), w))
                               | None \<Rightarrow> Inr (params\<lparr>TokenCode := Some token\<rparr>, w)))
              else Inr (params, w))
      in case mfa of
           Inl (r, w) \<Rightarrow> (r, p, w)
         | Inr (params, w) \<Rightarrow> exchange p sourceCreds params w)"
  unfolding retrieve_def exchange_def ..

lemma time_Now_frame:
  "snd (time_Now w) = w\<lparr>ticks := ticks w + 1\<rparr>"
  by (simp add: time_Now_def)

lemma exchange_cases:
  "(\<exists>e. sts_AssumeRole w (trace w) s params = Inl e
        \<and> exchange p s params w =
            (Some (Value_zero\<lparr>Value_ProviderName := ProviderName\<rparr>,
                   \<lparr>unixNanos = clock w (ticks w), location = Local\<rparr>, Some e), p,
             w\<lparr>ticks := ticks w + 1, trace := trace w @ [AssumeRoleCall s params]\<rparr>))
   \<or> (\<exists>out. sts_AssumeRole w (trace w) s params = Inr out
        \<and> (\<exists>r. exchange p s params w = (r, p, w\<lparr>trace := trace w @ [AssumeRoleCall s params]\<rparr>)
              \<and> (r = None
                  \<or> (\<exists>c ak sk st exp. out = \<lparr>Output_Credentials = Some c\<rparr>
                        \<and> sts_AccessKeyId c = Some ak \<and> sts_SecretAccessKey c = Some sk
                        \<and> sts_SessionToken c = Some st \<and> sts_Expiration c = Some exp
                        \<and> r = Some (\<lparr>AccessKeyID = ak, SecretAccessKey = sk, SessionToken = st,
                               Value_ProviderName = ProviderName\<rparr>, Time_UTC exp, None)))))"
proof (cases "sts_AssumeRole w (trace w) s params")
  case (Inl e)
  then show ?thesis
    by (simp add: exchange_def Let_def time_Now_def)
next
  case (Inr out)
  then show ?thesis
    by (cases out) (auto simp add: exchange_def Let_def split: option.splits)
qed

lemma exchange_provider: "exchange p s params w = (r, p2, w2) \<Longrightarrow> p2 = p"
  using exchange_cases [of w s params p] by auto

lemma exchange_trace:
  "exchange p s params w = (r, p2, w2) \<Longrightarrow> trace w2 = trace w @ [AssumeRoleCall s params]"
  using exchange_cases [of w s params p] by auto

lemma exchange_error:
  assumes "exchange p s params w = (Some (v, t, Some e), p2, w2)"
  shows "sts_AssumeRole w (trace w) s params = Inl e
       \<and> v = Value_zero\<lparr>Value_ProviderName := ProviderName\<rparr>
       \<and> t = \<lparr>unixNanos = clock w (ticks w), location = Local\<rparr>
       \<and> ticks w2 = ticks w + 1 \<and> clock w2 = clock w"
  using exchange_cases [of w s params p] assms by auto

lemma exchange_success:
  assumes "exchange p s params w = (Some (v, t, None), p2, w2)"
  shows "\<exists>c exp. sts_AssumeRole w (trace w) s params = Inr \<lparr>Output_Credentials = Some c\<rparr>
       \<and> sts_AccessKeyId c = Some (AccessKeyID v)
       \<and> sts_SecretAccessKey c = Some (SecretAccessKey v)
       \<and> sts_SessionToken c = Some (SessionToken v)
       \<and> Value_ProviderName v = ProviderName
       \<and> sts_Expiration c = Some exp \<and> t = Time_UTC exp"
  using exchange_cases [of w s params p] assms by auto

lemma exchange_success_ex:
  assumes "exchange p s params w = (Some (v, t, None), p2, w2)"
  shows "\<exists>tr params c exp.
           trace w2 = tr @ [AssumeRoleCall s params]
         \<and> sts_AssumeRole w tr s params = Inr \<lparr>Output_Credentials = Some c\<rparr>
         \<and> sts_AccessKeyId c = Some (AccessKeyID v)
         \<and> sts_SecretAccessKey c = Some (SecretAccessKey v)
         \<and> sts_SessionToken c = Some (SessionToken v)
         \<and> Value_ProviderName v = ProviderName
         \<and> sts_Expiration c = Some exp \<and> t = Time_UTC exp"
  using exchange_success [OF assms] exchange_trace [OF assms] by blast

lemma session_world_fields [simp]:
  "trace (session_world prof w) = trace w"
  "clock (session_world prof w) = clock w"
  "sts_AssumeRole (session_world prof w) = sts_AssumeRole w"
  "ticks w \<le> ticks (session_world prof w)"
  by (simp_all add: session_world_def time_Now_def)

lemma with_default_duration_fields [simp]:
  "Cache (with_default_duration p w) = Cache p"
  "GetToken (with_default_duration p w) = GetToken p"
  "ProfileName (with_default_duration p w) = ProfileName p"
  "ExpiryWindow (with_default_duration p w) = ExpiryWindow p"
  by (simp_all add: with_default_duration_def)

lemma retrieve_no_MFA:
  assumes "MFASerial prof = None"
  shows "retrieve p prof w =
           exchange (with_default_duration p w) (SourceProfileName prof) (request_params p prof w)
             (session_world prof w)"
  using assms
  by (auto simp add: retrieve_exchange session_world_def with_default_duration_def Let_def split_beta
      time_Now_def request_params_def)

lemma retrieve_nil_token_source:
  assumes "MFASerial prof \<noteq> None" and "GetToken p = None"
  shows "retrieve p prof w = (None, with_default_duration p w, session_world prof w)"
  using assms
  by (auto simp add: retrieve_exchange session_world_def with_default_duration_def Let_def split_beta
      time_Now_def)

lemma retrieve_token_error:
  assumes "MFASerial prof \<noteq> None" and "GetToken p = Some getToken"
    and "getToken (trace w) = (token, Some e)"
  shows "retrieve p prof w =
     (Some (Value_zero\<lparr>Value_ProviderName := ProviderName\<rparr>,
            \<lparr>unixNanos = clock w (ticks (session_world prof w)), location = Local\<rparr>, Some e),
      with_default_duration p w,
      (session_world prof w)\<lparr>trace := trace w @ [GetTokenCall],
                              ticks := ticks (session_world prof w) + 1\<rparr>)"
  using assms
  by (auto simp add: retrieve_exchange session_world_def with_default_duration_def Let_def split_beta
      time_Now_def)

lemma retrieve_token_ok:
  assumes "MFASerial prof \<noteq> None" and "GetToken p = Some getToken"
    and "getToken (trace w) = (token, None)"
  shows "retrieve p prof w =
           exchange (with_default_duration p w) (SourceProfileName prof)
             ((request_params p prof w)\<lparr>SerialNumber := MFASerial prof, TokenCode := Some token\<rparr>)
             ((session_world prof w)\<lparr>trace := trace w @ [GetTokenCall]\<rparr>)"
  using assms
  by (auto simp add: retrieve_exchange session_world_def with_default_duration_def Let_def split_beta
      time_Now_def request_params_def)

lemma retrieve_granted:
  assumes "MFASerial prof = None"
    and "sts_AssumeRole w (trace w) (SourceProfileName prof) (request_params p prof w)
           = Inr \<lparr>Output_Credentials =
                   Some \<lparr>sts_AccessKeyId = Some ak, sts_SecretAccessKey = Some sk,
                         sts_SessionToken = Some st, sts_Expiration = Some exp\<rparr>\<rparr>"
  shows "fst (retrieve p prof w) =
           Some (\<lparr>AccessKeyID = ak, SecretAccessKey = sk, SessionToken = st,
                  Value_ProviderName = ProviderName\<rparr>, Time_UTC exp, None)"
  using assms by (simp add: retrieve_no_MFA exchange_def Let_def)

lemma retrieve_granted_with_token:
  assumes "MFASerial prof \<noteq> None" and "GetToken p = Some getToken"
    and "getToken (trace w) = (token, None)"
    and "sts_AssumeRole w (trace w @ [GetTokenCall]) (SourceProfileName prof)
           ((request_params p prof w)\<lparr>SerialNumber := MFASerial prof, TokenCode := Some token\<rparr>)
           = Inr \<lparr>Output_Credentials =
                   Some \<lparr>sts_AccessKeyId = Some ak, sts_SecretAccessKey = Some sk,
                         sts_SessionToken = Some st, sts_Expiration = Some exp\<rparr>\<rparr>"
  shows "fst (retrieve p prof w) =
           Some (\<lparr>AccessKeyID = ak, SecretAccessKey = sk, SessionToken = st,
                  Value_ProviderName = ProviderName\<rparr>, Time_UTC exp, None)"
  using assms by (simp add: retrieve_token_ok exchange_def Let_def)

lemma retrieve_denied:
  assumes "MFASerial prof = None"
    and "sts_AssumeRole w (trace w) (SourceProfileName prof) (request_params p prof w) = Inl e"
  shows "\<exists>t. fst (retrieve p prof w)
           = Some (Value_zero\<lparr>Value_ProviderName := ProviderName\<rparr>, t, Some e)"
  using assms by (simp add: retrieve_no_MFA exchange_def Let_def split_beta)

lemma retrieve_provider:
  assumes "retrieve p prof w = (r, p2, w2)"
  shows "p2 = with_default_duration p w"
proof (cases "MFASerial prof")
  case None
  with assms show ?thesis
    by (simp add: retrieve_no_MFA) (metis exchange_provider)
next
  case (Some serial)
  show ?thesis
  proof (cases "GetToken p")
    case None
    with Some assms show ?thesis by (simp add: retrieve_nil_token_source)
  next
    case getToken: (Some getToken)
    obtain token err where tok: "getToken (trace w) = (token, err)" by (cases "getToken (trace w)")
    show ?thesis
    proof (cases err)
      case None
      with Some getToken tok assms show ?thesis
        by (simp add: retrieve_token_ok) (metis exchange_provider)
    next
      case e: (Some e)
      with Some getToken tok assms show ?thesis
        by (simp add: retrieve_token_error)
    qed
  qed
qed

lemma retrieve_extends_trace:
  assumes "retrieve p prof w = (r, p2, w2)" and "GetToken p = Some getToken"
  shows "\<exists>e es. trace w2 = trace w @ e # es"
proof (cases "MFASerial prof")
  case None
  with assms show ?thesis
    by (simp add: retrieve_no_MFA) (metis exchange_trace session_world_fields(1))
next
  case (Some serial)
  obtain token err where tok: "getToken (trace w) = (token, err)" by (cases "getToken (trace w)")
  show ?thesis
  proof (cases err)
    case None
    with Some assms tok
    have "exchange (with_default_duration p w) (SourceProfileName prof)
             ((request_params p prof w)\<lparr>SerialNumber := MFASerial prof, TokenCode := Some token\<rparr>)
             ((session_world prof w)\<lparr>trace := trace w @ [GetTokenCall]\<rparr>) = (r, p2, w2)"
      by (simp add: retrieve_token_ok)
    from exchange_trace [OF this] show ?thesis by simp
  next
    case e: (Some e)
    with Some assms tok show ?thesis
      by (auto simp add: retrieve_token_error)
  qed
qed

lemma retrieve_error:
  assumes "retrieve p prof w = (Some (v, t, Some e), p2, w2)"
  shows "v = Value_zero\<lparr>Value_ProviderName := ProviderName\<rparr>
         \<and> 0 < ticks w2 \<and> t = \<lparr>unixNanos = clock w2 (ticks w2 - 1), location = Local\<rparr>"
proof (cases "MFASerial prof")
  case None
  with assms have "exchange (with_default_duration p w) (SourceProfileName prof)
      (request_params p prof w) (session_world prof w) = (Some (v, t, Some e), p2, w2)"
    by (simp add: retrieve_no_MFA)
  from exchange_error [OF this] show ?thesis by simp
next
  case (Some serial)
  show ?thesis
  proof (cases "GetToken p")
    case None
    with Some assms show ?thesis by (simp add: retrieve_nil_token_source)
  next
    case getToken: (Some getToken)
    obtain token err where tok: "getToken (trace w) = (token, err)" by (cases "getToken (trace w)")
    show ?thesis
    proof (cases err)
      case None
      with Some getToken assms tok
      have "exchange (with_default_duration p w) (SourceProfileName prof)
             ((request_params p prof w)\<lparr>SerialNumber := MFASerial prof, TokenCode := Some token\<rparr>)
             ((session_world prof w)\<lparr>trace := trace w @ [GetTokenCall]\<rparr>)
            = (Some (v, t, Some e), p2, w2)"
        by (simp add: retrieve_token_ok)
      from exchange_error [OF this] show ?thesis by simp
    next
      case e: (Some e')
      with Some getToken tok assms show ?thesis
        by (auto simp add: retrieve_token_error)
    qed
  qed
qed

lemma retrieve_success:
  assumes "retrieve p prof w = (Some (v, t, None), p2, w2)"
  shows "\<exists>tr params c exp.
           trace w2 = tr @ [AssumeRoleCall (SourceProfileName prof) params]
         \<and> sts_AssumeRole w tr (SourceProfileName prof) params
             = Inr \<lparr>Output_Credentials = Some c\<rparr>
         \<and> sts_AccessKeyId c = Some (AccessKeyID v)
         \<and> sts_SecretAccessKey c = Some (SecretAccessKey v)
         \<and> sts_SessionToken c = Some (SessionToken v)
         \<and> Value_ProviderName v = ProviderName
         \<and> sts_Expiration c = Some exp \<and> t = Time_UTC exp"
proof (cases "MFASerial prof")
  case None
  with assms have ex: "exchange (with_default_duration p w) (SourceProfileName prof)
      (request_params p prof w) (session_world prof w) = (Some (v, t, None), p2, w2)"
    by (simp add: retrieve_no_MFA)
  from exchange_success_ex [OF ex] show ?thesis by simp
next
  case (Some serial)
  show ?thesis
  proof (cases "GetToken p")
    case None
    with Some assms show ?thesis by (simp add: retrieve_nil_token_source)
  next
    case getToken: (Some getToken)
    obtain token err where tok: "getToken (trace w) = (token, err)" by (cases "getToken (trace w)")
    show ?thesis
    proof (cases err)
      case None
      with Some getToken assms tok
      have ex: "exchange (with_default_duration p w) (SourceProfileName prof)
             ((request_params p prof w)\<lparr>SerialNumber := MFASerial prof, TokenCode := Some token\<rparr>)
             ((session_world prof w)\<lparr>trace := trace w @ [GetTokenCall]\<rparr>)
            = (Some (v, t, None), p2, w2)"
        by (simp add: retrieve_token_ok)
      from exchange_success_ex [OF ex] show ?thesis by simp
    next
      case e: (Some e')
      with Some getToken tok assms show ?thesis
        by (auto simp add: retrieve_token_error)
    qed
  qed
qed

subsection \<open>What a live refresh leaves behind\<close>

lemma loadCachedCreds_Some:
  assumes "loadCachedCreds p w = Some (cached, p1)"
  shows "\<exists>c. Cache p = Some c \<and> p1 = p\<lparr>Cache := Some (snd (Cache_Get c ''credentials'' w))\<rparr>"
  using assms
  by (auto simp add: loadCachedCreds_def Let_def split_beta split: option.splits)

lemma with_default_token_fields [simp]:
  "Cache (with_default_token p w) = Cache p"
  "Duration (with_default_token p w) = Duration p"
  "ProfileName (with_default_token p w) = ProfileName p"
  "GetToken (with_default_token p w) \<noteq> None"
  by (simp_all add: with_default_token_def split: option.splits)

lemma Retrieve_miss_result:
  assumes lp: "loadProfile p w = Inr prof" and lc: "loadCachedCreds p w = Some (cached, p1)"
    and miss: "\<not> cache_hit cached prof w"
    and r: "retrieve (with_default_token p1 (after_cache_test cached prof w)) prof
           (after_cache_test cached prof w) = (Some (v, t, err), p2, w2)"
  shows "\<exists>c. Cache p2 = Some c
       \<and> Retrieve p w =
           (case persist c (json_Marshal_creds w2
                              \<lparr>Credentials = v, Expiration = t, Profile = prof\<rparr>) w2 of
              None \<Rightarrow> (Panicked, p2, w2)
            | Some (c', w') \<Rightarrow> (Returned v None, p2\<lparr>Cache := Some c'\<rparr>, w'))"
proof -
  from loadCachedCreds_Some [OF lc] obtain c0 where "Cache p1 = Some c0" by auto
  with retrieve_provider [OF r] obtain c where c: "Cache p2 = Some c" by simp
  then have same: "p2\<lparr>Cache := Some c\<rparr> = p2" by simp
  show ?thesis
    using c same
    by (simp add: Retrieve_miss [OF lp lc miss] r persist_def split: option.splits prod.splits)
qed

lemma request_params_no_MFA [simp]:
  "SerialNumber (request_params p prof w) = None"
  "TokenCode (request_params p prof w) = None"
  by (simp_all add: request_params_def)

lemma request_params_with_default_token [simp]:
  "request_params (with_default_token p w') prof w = request_params p prof w"
  by (simp add: request_params_def with_default_duration_def with_default_token_def
      split: option.splits)

lemma Retrieve_miss_trace:
  assumes lp: "loadProfile p w = Inr prof" and lc: "loadCachedCreds p w = Some (cached, p1)"
    and miss: "\<not> cache_hit cached prof w"
    and r: "retrieve (with_default_token p1 (after_cache_test cached prof w)) prof
           (after_cache_test cached prof w) = (r, p2, w2)"
  shows "trace (snd (snd (Retrieve p w))) = trace w2"
  by (auto simp add: Retrieve_miss [OF lp lc miss] r Cache_Set_trace
      split: option.splits prod.splits)

lemma after_cache_test_trace [simp]: "trace (after_cache_test cached prof w) = trace w"
  by (simp add: after_cache_test_def IsExpired_eq)

subsection \<open>Reading the cache twice\<close>

lemma loadCachedCreds_eq:
  "loadCachedCreds p w =
     (case Cache p of
        None \<Rightarrow> None
      | Some c \<Rightarrow>
          Some (decode_entry w (fst (Cache_Get c ''credentials'' w)),
                p\<lparr>Cache := Some (snd (Cache_Get c ''credentials'' w))\<rparr>))"
  by (simp add: loadCachedCreds_def decode_entry_def Let_def split_beta split: option.splits)

lemma loadProfile_frame:
  assumes "ProfileName q = ProfileName p" and "homedir_Dir w' = homedir_Dir w"
    and "ini_Load w' = ini_Load w"
  shows "loadProfile q w' = loadProfile p w"
  unfolding loadProfile_def assms by (rule refl)

lemma readConf_frame:
  assumes "files w' = files w" and "json_Decode_map w' = json_Decode_map w"
  shows "readConf f w' = readConf f w"
  unfolding readConf_def os_Open_def assms by (rule refl)

lemma readConf_again: "readConf (readConf f w) w = readConf f w"
  by (simp add: readConf_def Let_def split: sum.splits decoded.splits)

lemma FileCache_Get_again:
  assumes "files w' = files w" and "json_Decode_map w' = json_Decode_map w"
  shows "fst (FileCache_Get (snd (FileCache_Get f key w)) key w') = fst (FileCache_Get f key w)"
  using readConf_again [of f w]
  by (auto simp add: FileCache_Get_def Let_def readConf_frame [OF assms] split: option.splits)

lemma Cache_Get_again:
  assumes "Get_repeatable c key" and "files w' = files w"
    and "json_Decode_map w' = json_Decode_map w"
  shows "fst (Cache_Get (snd (Cache_Get c key w)) key w') = fst (Cache_Get c key w)"
proof (cases c)
  case (FileCacheImpl f)
  then show ?thesis
    using FileCache_Get_again [OF assms(2,3), of f key] by (simp add: split_beta)
next
  case (OtherCacheImpl oc)
  with assms show ?thesis by (simp add: Get_repeatable_def)
qed

lemma decode_entry_frame:
  assumes "json_Unmarshal_creds w' = json_Unmarshal_creds w"
  shows "decode_entry w' r = decode_entry w r"
  unfolding decode_entry_def assms by (rule refl)

subsection \<open>The result does not depend on what the cache holds beyond the record\<close>

lemma with_default_token_Some: "\<exists>g. GetToken (with_default_token p w) = Some g"
  by (cases "GetToken p") (simp_all add: with_default_token_def)

lemma exchange_indep:
  "fst (exchange a s params w) = fst (exchange b s params w)
   \<and> snd (snd (exchange a s params w)) = snd (snd (exchange b s params w))"
  by (simp add: exchange_def Let_def split_beta split: sum.splits option.splits)

lemma request_params_indep:
  "Duration a = Duration b \<Longrightarrow> request_params a prof w = request_params b prof w"
  by (simp add: request_params_def with_default_duration_def)

lemma retrieve_indep:
  assumes d: "Duration a = Duration b" and g: "GetToken a = GetToken b"
  shows "fst (retrieve a prof w) = fst (retrieve b prof w)
       \<and> snd (snd (retrieve a prof w)) = snd (snd (retrieve b prof w))"
proof (cases "MFASerial prof")
  case None
  then show ?thesis
    using exchange_indep request_params_indep [OF d] by (simp add: retrieve_no_MFA)
next
  case (Some serial)
  show ?thesis
  proof (cases "GetToken b")
    case None
    with Some g show ?thesis by (simp add: retrieve_nil_token_source)
  next
    case getToken: (Some getToken)
    obtain token err where tok: "getToken (trace w) = (token, err)" by (cases "getToken (trace w)")
    show ?thesis
    proof (cases err)
      case None
      with Some getToken tok g show ?thesis
        using exchange_indep request_params_indep [OF d] by (simp add: retrieve_token_ok)
    next
      case e: (Some e)
      with Some getToken tok g show ?thesis
        by (simp add: retrieve_token_error)
    qed
  qed
qed

lemma Retrieve_miss_outcome:
  assumes lp: "loadProfile p w = Inr prof" and lc: "loadCachedCreds p w = Some (cached, p1)"
    and miss: "\<not> cache_hit cached prof w"
    and r: "retrieve (with_default_token p1 (after_cache_test cached prof w)) prof
           (after_cache_test cached prof w) = (r, p2, w2)"
  shows "fst (Retrieve p w) = Panicked \<or> (\<exists>v t err. r = Some (v, t, err) \<and> fst (Retrieve p w) = Returned v None)"
proof (cases r)
  case None
  with r show ?thesis by (simp add: Retrieve_miss [OF lp lc miss])
next
  case (Some x)
  obtain v t err where x: "x = (v, t, err)" by (cases x)
  from r Some x have r': "retrieve (with_default_token p1 (after_cache_test cached prof w)) prof
           (after_cache_test cached prof w) = (Some (v, t, err), p2, w2)" by simp
  from Retrieve_miss_result [OF lp lc miss r'] show ?thesis
    by (auto simp add: Some x split: option.splits)
qed

lemma Retrieve_miss_returns:
  assumes lp: "loadProfile p w = Inr prof" and lc: "loadCachedCreds p w = Some (cached, p1)"
    and miss: "\<not> cache_hit cached prof w"
    and r: "retrieve (with_default_token p1 (after_cache_test cached prof w)) prof
           (after_cache_test cached prof w) = (r, p2, w2)"
    and ready: "\<exists>c. Cache p1 = Some c \<and> Set_ready c"
  shows "fst (Retrieve p w) = (case r of None \<Rightarrow> Panicked | Some (v, t, err) \<Rightarrow> Returned v None)"
proof (cases r)
  case None
  with r show ?thesis by (simp add: Retrieve_miss [OF lp lc miss])
next
  case (Some x)
  obtain v t err where x: "x = (v, t, err)" by (cases x)
  from r Some x have r': "retrieve (with_default_token p1 (after_cache_test cached prof w)) prof
           (after_cache_test cached prof w) = (Some (v, t, err), p2, w2)" by simp
  from ready retrieve_provider [OF r'] obtain c where c: "Cache p2 = Some c" "Set_ready c"
    by auto
  have "persist c (json_Marshal_creds w2 \<lparr>Credentials = v, Expiration = t, Profile = prof\<rparr>) w2
          \<noteq> None"
    using Cache_Set_returns [OF c(2)] by (simp add: persist_def split: prod.splits option.splits)
  with Retrieve_miss_result [OF lp lc miss r'] c(1) show ?thesis
    by (auto simp add: Some x split: option.splits)
qed

lemma Retrieve_error_only_from_profile:
  assumes "fst (Retrieve p w) = Returned v (Some e)"
  shows "loadProfile p w = Inl e"
proof (cases "loadProfile p w")
  case (Inl e')
  with assms show ?thesis by (simp add: Retrieve_def)
next
  case (Inr prof)
  show ?thesis
  proof (cases "loadCachedCreds p w")
    case None
    with Inr assms show ?thesis by (simp add: Retrieve_def)
  next
    case (Some x)
    obtain cached p1 where lc: "loadCachedCreds p w = Some (cached, p1)"
      using Some by (cases x) simp
    show ?thesis
    proof (cases "cache_hit cached prof w")
      case True
      from Retrieve_hit [OF Inr lc True] assms show ?thesis by simp
    next
      case False
      obtain r p2 w2 where r: "retrieve (with_default_token p1 (after_cache_test cached prof w)) prof
           (after_cache_test cached prof w) = (r, p2, w2)"
        by (cases "retrieve (with_default_token p1 (after_cache_test cached prof w)) prof
           (after_cache_test cached prof w)")
      from Retrieve_miss_outcome [OF Inr lc False r] assms show ?thesis
        by (auto split: option.splits)
    qed
  qed
qed

lemma Retrieve_same_record:
  assumes lcp: "loadCachedCreds p w = Some (cached, p1)"
    and lcq: "loadCachedCreds q w = Some (cached, q1)"
    and d: "Duration q = Duration p" and g: "GetToken q = GetToken p"
    and n: "ProfileName q = ProfileName p"
    and readyp: "\<exists>c. Cache p1 = Some c \<and> Set_ready c"
    and readyq: "\<exists>c. Cache q1 = Some c \<and> Set_ready c"
  shows "fst (Retrieve q w) = fst (Retrieve p w)
       \<and> trace (snd (snd (Retrieve q w))) = trace (snd (snd (Retrieve p w)))"
proof (cases "loadProfile p w")
  case (Inl e)
  moreover have "loadProfile q w = loadProfile p w"
    using loadProfile_frame [OF n, of w w] by simp
  ultimately show ?thesis by (simp add: Retrieve_def)
next
  case (Inr prof)
  have lq: "loadProfile q w = Inr prof"
    using Inr loadProfile_frame [OF n, of w w] by simp
  show ?thesis
  proof (cases "cache_hit cached prof w")
    case True
    from Retrieve_hit [OF Inr lcp True] Retrieve_hit [OF lq lcq True] show ?thesis by simp
  next
    case False
    let ?w1 = "after_cache_test cached prof w"
    from loadCachedCreds_Some [OF lcp] loadCachedCreds_Some [OF lcq] d g
    have d1: "Duration (with_default_token q1 ?w1) = Duration (with_default_token p1 ?w1)"
      and g1: "GetToken (with_default_token q1 ?w1) = GetToken (with_default_token p1 ?w1)"
      by (auto simp add: with_default_token_def split: option.splits)
    obtain r p2 w2 where rp: "retrieve (with_default_token p1 ?w1) prof ?w1 = (r, p2, w2)"
      by (cases "retrieve (with_default_token p1 ?w1) prof ?w1")
    obtain r' q2 w2' where rq: "retrieve (with_default_token q1 ?w1) prof ?w1 = (r', q2, w2')"
      by (cases "retrieve (with_default_token q1 ?w1) prof ?w1")
    from retrieve_indep [OF d1 g1, of prof ?w1] rp rq have eq: "r' = r" "w2' = w2" by simp_all
    from Retrieve_miss_returns [OF Inr lcp False rp readyp]
      Retrieve_miss_returns [OF lq lcq False rq readyq]
      Retrieve_miss_trace [OF Inr lcp False rp] Retrieve_miss_trace [OF lq lcq False rq] eq
    show ?thesis by simp
  qed
qed

subsection \<open>A cache with no usable record\<close>

lemma readConf_cases:
  "data (readConf f w) = Some Map.empty
   \<or> (\<exists>content m err. os_Open w (filename f) = Inr content
         \<and> json_Decode_map w content = Decoded m err)"
  by (auto simp add: readConf_def Let_def split: sum.splits decoded.splits)

lemma cache_broken_zero:
  assumes "data f = None" and "cache_broken w f"
  shows "decode_entry w (fst (FileCache_Get f ''credentials'' w)) = creds_zero"
  using assms
  by (auto simp add: cache_broken_def FileCache_Get_def readConf_def decode_entry_def Let_def
      split: sum.splits decoded.splits option.splits)

lemma cache_broken_ready:
  assumes "data f = None" and "cache_broken w f"
  shows "data (snd (FileCache_Get f ''credentials'' w)) \<noteq> None"
  using assms
  by (auto simp add: cache_broken_def FileCache_Get_def readConf_def Let_def
      split: sum.splits decoded.splits option.splits)

lemma empty_cache_zero:
  "decode_entry w (fst (FileCache_Get (f\<lparr>data := Some Map.empty\<rparr>) ''credentials'' w)) = creds_zero"
  by (simp add: FileCache_Get_def decode_entry_def)

section \<open>Evaluation of the concrete configuration\<close>

lemmas example_defs =
  section_prod_def section_secure_def config_ex_def prof_prod_def prof_secure_def rec_ex_def
  sts_ok_def world_ex_def provider_ex_def world_empty_def NewCredentials_def NewFileCache_def
  profile_zero_def creds_zero_def Value_zero_def Time_zero_def ProviderName_def Minute_def Second_def

lemmas model_defs =
  loadProfile_def loadCachedCreds_def FileCache_Get_def FileCache_Set_def readConf_def
  writeConf_def os_Open_def os_OpenFile_trunc_def Match_def IsExpired_eq time_Now_def
  cache_hit_def after_cache_test_def with_default_token_def with_default_duration_def
  session_world_def request_params_def Time_UTC_def Time_UnixNano_def Sprintf_d_def
  Time_Before_def

lemma loadProfile_prod: "loadProfile (provider_ex ''prod'') world_empty = Inr prof_prod"
  by (simp add: example_defs model_defs)

lemmas example_worlds =
  world_token_fails_def world_sts_fails_def world_boundary_def world_late_def world_corrupt_def
  section_changed_def world_changed_def provider_window_def fresh_Value_def

lemmas more_worlds = world_null_def world_null_sts_fails_def rec_half_def world_illtyped_def
  provider_empty_cache_def

lemmas run_defs = Retrieve_def retrieve_def example_worlds example_defs model_defs Let_def
  decimal.simps

text \<open>
  The field \<open>ExpiryWindow\<close> is read nowhere: with a window of 1500, a record that
  expires at 2000 is still returned at 1000 without a refresh.
\<close>

lemma expiry_window_ignored_example:
  "fst (Retrieve provider_window world_ex) = Returned (Credentials rec_ex) None
   \<and> trace (snd (snd (Retrieve provider_window world_ex))) = []"
  by (simp add: run_defs)

text \<open>
  A backing file that holds the JSON value \<^verbatim>\<open>null\<close>: \<^verbatim>\<open>readConf\<close> leaves the map \<^verbatim>\<open>nil\<close>,
  \<^verbatim>\<open>Get\<close> finds nothing, and the \<^verbatim>\<open>Set\<close> that follows the live refresh panics.
\<close>

lemma null_backing_file_example:
  "\<not> Cache_usable (FileCacheImpl (NewFileCache [] world_ex)) world_null
   \<and> fst (Retrieve (provider_ex ''prod'') world_null) = Panicked"
  by (simp add: Cache_usable_def world_null_def run_defs)

section \<open>Behaviour on a cache that can store\<close>

text \<open>
  The three lemmas of this section hold under a condition on the cache: that its
  \<^verbatim>\<open>Set\<close> returns (\<open>Cache_usable\<close>), or that it is a fresh file cache with no usable record
  whose backing file did not decode to \<^verbatim>\<open>null\<close> (\<open>cache_broken\<close>). Outside these conditions
  the code behaves as the last three theorems of the next section show.
\<close>

text \<open>
  When the live exchange succeeds, the credentials and the expiry that \<^verbatim>\<open>retrieve\<close>
  returns are those of the response to the request it made, the expiry in UTC.
  \<^verbatim>\<open>Retrieve\<close> builds the record from them and the loaded profile, stores its
  serialisation in the cache under \<open>credentials\<close> (when serialising fails, the cache is left
  as it is), and returns the new credentials with a \<^verbatim>\<open>nil\<close> error.
\<close>

lemma successful_refresh_is_stored_and_returned:
  assumes lp: "loadProfile p w = Inr prof"
    and c: "Cache p = Some c" and usable: "Cache_usable c w"
    and lc: "loadCachedCreds p w = Some (cached, p1)"
    and miss: "\<not> cache_hit cached prof w"
    and r: "retrieve (with_default_token p1 (after_cache_test cached prof w)) prof
              (after_cache_test cached prof w) = (Some (v, t, None), p2, w2)"
    and m: "json_Marshal_creds w2 \<lparr>Credentials = v, Expiration = t, Profile = prof\<rparr> = (js, merr)"
  shows "(\<exists>tr params c exp.
             trace w2 = tr @ [AssumeRoleCall (SourceProfileName prof) params]
           \<and> sts_AssumeRole w tr (SourceProfileName prof) params
               = Inr \<lparr>Output_Credentials = Some c\<rparr>
           \<and> sts_AccessKeyId c = Some (AccessKeyID v)
           \<and> sts_SecretAccessKey c = Some (SecretAccessKey v)
           \<and> sts_SessionToken c = Some (SessionToken v)
           \<and> Value_ProviderName v = ProviderName
           \<and> sts_Expiration c = Some exp \<and> t = Time_UTC exp)
       \<and> location t = UTC
       \<and> (\<exists>c1 c' w'. Cache p2 = Some c1 \<and> persist c1 (js, merr) w2 = Some (c', w')
             \<and> (case merr of
                  None \<Rightarrow> holds_entry c' ''credentials'' js
                | Some err \<Rightarrow> c' = c1 \<and> w' = w2)
             \<and> Retrieve p w = (Returned v None, p2\<lparr>Cache := Some c'\<rparr>, w'))"
proof -
  let ?w1 = "after_cache_test cached prof w"
  have env: "sts_AssumeRole ?w1 = sts_AssumeRole w"
    by (simp add: after_cache_test_def IsExpired_eq time_Now_def)
  from retrieve_success [OF r] have part1: "\<exists>tr params c exp.
             trace w2 = tr @ [AssumeRoleCall (SourceProfileName prof) params]
           \<and> sts_AssumeRole w tr (SourceProfileName prof) params
               = Inr \<lparr>Output_Credentials = Some c\<rparr>
           \<and> sts_AccessKeyId c = Some (AccessKeyID v)
           \<and> sts_SecretAccessKey c = Some (SecretAccessKey v)
           \<and> sts_SessionToken c = Some (SessionToken v)
           \<and> Value_ProviderName v = ProviderName
           \<and> sts_Expiration c = Some exp \<and> t = Time_UTC exp"
    by (simp only: env)
  then have part2: "location t = UTC" by (auto simp add: Time_UTC_def)
  from Retrieve_miss_result [OF lp lc miss r] obtain c1 where
    c1: "Cache p2 = Some c1" and
    R: "Retrieve p w =
           (case persist c1 (js, merr) w2 of
              None \<Rightarrow> (Panicked, p2, w2)
            | Some (c', w') \<Rightarrow> (Returned v None, p2\<lparr>Cache := Some c'\<rparr>, w'))"
    by (auto simp add: m)
  from loadCachedCreds_Some [OF lc] c retrieve_provider [OF r] c1
  have "c1 = snd (Cache_Get c ''credentials'' w)" by auto
  with Cache_usable_ready [OF usable] have ready: "Set_ready c1" by simp
  obtain c' w' where s: "persist c1 (js, merr) w2 = Some (c', w')"
    using Cache_Set_returns [OF ready, of "''credentials''" js w2]
    by (cases "persist c1 (js, merr) w2") (auto simp add: persist_def split: option.splits)
  have held: "(case merr of
                  None \<Rightarrow> holds_entry c' ''credentials'' js
                | Some err \<Rightarrow> c' = c1 \<and> w' = w2)"
    using s Cache_Set_holds [of c1 "''credentials''" js w2 c' w']
    by (auto simp add: persist_def split: option.splits)
  have part3: "\<exists>c1 c' w'. Cache p2 = Some c1 \<and> persist c1 (js, merr) w2 = Some (c', w')
             \<and> (case merr of
                  None \<Rightarrow> holds_entry c' ''credentials'' js
                | Some err \<Rightarrow> c' = c1 \<and> w' = w2)
             \<and> Retrieve p w = (Returned v None, p2\<lparr>Cache := Some c'\<rparr>, w')"
    using c1 s R held by auto
  from part1 part2 part3 show ?thesis by blast
qed

lemma successful_refresh_example:
  "fst (Retrieve (provider_ex ''prod'') world_empty) = Returned fresh_Value None"
proof -
  let ?p = "provider_ex ''prod''" and ?w = world_empty
  let ?p1 = "snd (the (loadCachedCreds ?p ?w))"
  let ?w1 = "after_cache_test creds_zero prof_prod ?w"
  let ?R = "retrieve (with_default_token ?p1 ?w1) prof_prod ?w1"
  let ?t = "\<lparr>unixNanos = 5000, location = UTC\<rparr>"
  have lp: "loadProfile ?p ?w = Inr prof_prod" by (simp add: run_defs)
  have lc: "loadCachedCreds ?p ?w = Some (creds_zero, ?p1)" by (simp add: run_defs)
  have miss: "\<not> cache_hit creds_zero prof_prod ?w" by (simp add: run_defs)
  have "fst ?R = Some (fresh_Value, ?t, None)" by (simp add: run_defs)
  then have r: "?R = (Some (fresh_Value, ?t, None), fst (snd ?R), snd (snd ?R))"
    by (simp add: prod_eq_iff)
  have m: "json_Marshal_creds (snd (snd ?R))
             \<lparr>Credentials = fresh_Value, Expiration = ?t, Profile = prof_prod\<rparr>
           = (''{fresh}'', None)"
    by (simp add: run_defs)
  have c: "Cache ?p = Some (FileCacheImpl (NewFileCache [] world_ex))"
    by (simp add: run_defs)
  have usable: "Cache_usable (FileCacheImpl (NewFileCache [] world_ex)) ?w"
    by (simp add: Cache_usable_def run_defs)
  from successful_refresh_is_stored_and_returned [OF lp c usable lc miss r m]
  show ?thesis by auto
qed

text \<open>
  When the live refresh fails, the credentials are the zero value with only the provider
  name, the expiry is the reading of the clock taken on that failure, and \<^verbatim>\<open>Retrieve\<close>
  stores the record built from them and returns these credentials with a \<^verbatim>\<open>nil\<close> error.
\<close>

lemma failed_refresh_returns_nil_error:
  assumes lp: "loadProfile p w = Inr prof"
    and c: "Cache p = Some c" and usable: "Cache_usable c w"
    and lc: "loadCachedCreds p w = Some (cached, p1)"
    and miss: "\<not> cache_hit cached prof w"
    and r: "retrieve (with_default_token p1 (after_cache_test cached prof w)) prof
              (after_cache_test cached prof w) = (Some (v, t, Some e), p2, w2)"
    and m: "json_Marshal_creds w2 \<lparr>Credentials = v, Expiration = t, Profile = prof\<rparr> = (js, None)"
  shows "v = Value_zero\<lparr>Value_ProviderName := ProviderName\<rparr>
       \<and> 0 < ticks w2 \<and> t = \<lparr>unixNanos = clock w2 (ticks w2 - 1), location = Local\<rparr>
       \<and> (\<exists>c1 c' w'. Cache p2 = Some c1 \<and> Cache_Set c1 ''credentials'' js w2 = Some (c', w')
              \<and> holds_entry c' ''credentials'' js
              \<and> Retrieve p w = (Returned v None, p2\<lparr>Cache := Some c'\<rparr>, w'))"
proof -
  from Retrieve_miss_result [OF lp lc miss r] obtain c1 where
    c1: "Cache p2 = Some c1" and
    R: "Retrieve p w =
          (case Cache_Set c1 ''credentials'' js w2 of
             None \<Rightarrow> (Panicked, p2, w2)
           | Some (c', w') \<Rightarrow> (Returned v None, p2\<lparr>Cache := Some c'\<rparr>, w'))"
    by (auto simp add: m persist_def)
  from loadCachedCreds_Some [OF lc] c retrieve_provider [OF r] c1
  have "c1 = snd (Cache_Get c ''credentials'' w)" by auto
  with Cache_usable_ready [OF usable] have ready: "Set_ready c1" by simp
  obtain c' w' where s: "Cache_Set c1 ''credentials'' js w2 = Some (c', w')"
    using Cache_Set_returns [OF ready, of "''credentials''" js w2]
    by (cases "Cache_Set c1 ''credentials'' js w2") auto
  from retrieve_error [OF r] c1 s R Cache_Set_holds [OF s] show ?thesis by simp
qed

lemma failed_refresh_example:
  "fst (Retrieve (provider_ex ''secure'') world_token_fails)
     = Returned (Value_zero\<lparr>Value_ProviderName := ProviderName\<rparr>) None"
proof -
  let ?p = "provider_ex ''secure''" and ?w = world_token_fails
  let ?p1 = "snd (the (loadCachedCreds ?p ?w))"
  let ?w1 = "after_cache_test creds_zero prof_secure ?w"
  let ?R = "retrieve (with_default_token ?p1 ?w1) prof_secure ?w1"
  let ?v = "Value_zero\<lparr>Value_ProviderName := ProviderName\<rparr>"
  let ?t = "\<lparr>unixNanos = 1001, location = Local\<rparr>"
  have lp: "loadProfile ?p ?w = Inr prof_secure"
    by (simp add: run_defs)
  have lc: "loadCachedCreds ?p ?w = Some (creds_zero, ?p1)"
    by (simp add: run_defs)
  have miss: "\<not> cache_hit creds_zero prof_secure ?w"
    by (simp add: run_defs)
  have "fst ?R = Some (?v, ?t, Some (Error ''EOF''))"
    by (simp add: run_defs)
  then have r: "?R = (Some (?v, ?t, Some (Error ''EOF'')), fst (snd ?R), snd (snd ?R))"
    by (simp add: prod_eq_iff)
  have m: "json_Marshal_creds (snd (snd ?R))
             \<lparr>Credentials = ?v, Expiration = ?t, Profile = prof_secure\<rparr> = (''{fresh}'', None)"
    by (simp add: run_defs)
  have c: "Cache ?p = Some (FileCacheImpl (NewFileCache [] world_ex))"
    by (simp add: run_defs)
  have usable: "Cache_usable (FileCacheImpl (NewFileCache [] world_ex)) ?w"
    by (simp add: Cache_usable_def run_defs)
  from failed_refresh_returns_nil_error [OF lp c usable lc miss r m]
  show ?thesis by auto
qed

text \<open>
  A fresh file cache whose backing file is missing, unreadable or not valid JSON, or in
  which the entry \<open>credentials\<close> is missing or not valid JSON: the record loaded is the zero
  value and \<^verbatim>\<open>Retrieve\<close> returns, and calls the outside, as on a cache initialised empty.
\<close>

lemma broken_cache_is_empty_cache:
  assumes c: "Cache p = Some (FileCacheImpl f)" and fresh: "data f = None"
    and broken: "cache_broken w f"
  shows "(data (readConf f w) = Some Map.empty
          \<or> (\<exists>content m err. os_Open w (filename f) = Inr content
                \<and> json_Decode_map w content = Decoded m err))
       \<and> map_option fst (loadCachedCreds p w) = Some creds_zero
       \<and> fst (Retrieve p w)
           = fst (Retrieve (p\<lparr>Cache := Some (FileCacheImpl (f\<lparr>data := Some Map.empty\<rparr>))\<rparr>) w)
       \<and> trace (snd (snd (Retrieve p w)))
           = trace (snd (snd (Retrieve
               (p\<lparr>Cache := Some (FileCacheImpl (f\<lparr>data := Some Map.empty\<rparr>))\<rparr>) w)))
       \<and> (case fst (Retrieve p w) of
             Returned v None \<Rightarrow> True
           | Returned v (Some e) \<Rightarrow> loadProfile p w = Inl e
           | Panicked \<Rightarrow> True)"
proof -
  let ?q = "p\<lparr>Cache := Some (FileCacheImpl (f\<lparr>data := Some Map.empty\<rparr>))\<rparr>"
  have lcp: "loadCachedCreds p w =
      Some (creds_zero, p\<lparr>Cache := Some (snd (Cache_Get (FileCacheImpl f) ''credentials'' w))\<rparr>)"
    using cache_broken_zero [OF fresh broken] by (simp add: loadCachedCreds_eq c split_beta)
  have lcq: "loadCachedCreds ?q w =
      Some (creds_zero, ?q\<lparr>Cache := Some (snd (Cache_Get
               (FileCacheImpl (f\<lparr>data := Some Map.empty\<rparr>)) ''credentials'' w))\<rparr>)"
    using empty_cache_zero [of w f] by (simp add: loadCachedCreds_eq split_beta)
  have readyp: "\<exists>c'. Cache (p\<lparr>Cache := Some (snd (Cache_Get (FileCacheImpl f) ''credentials'' w))\<rparr>)
                       = Some c' \<and> Set_ready c'"
    using cache_broken_ready [OF fresh broken] by (simp add: Set_ready_def split_beta)
  have readyq: "\<exists>c'. Cache (?q\<lparr>Cache := Some (snd (Cache_Get
               (FileCacheImpl (f\<lparr>data := Some Map.empty\<rparr>)) ''credentials'' w))\<rparr>)
                       = Some c' \<and> Set_ready c'"
    by (simp add: Set_ready_def split_beta FileCache_Get_def)
  have same: "fst (Retrieve p w) = fst (Retrieve ?q w)
       \<and> trace (snd (snd (Retrieve p w))) = trace (snd (snd (Retrieve ?q w)))"
    using Retrieve_same_record [OF lcq lcp _ _ _ readyq readyp] by simp
  have err: "(case fst (Retrieve p w) of
             Returned v None \<Rightarrow> True
           | Returned v (Some e) \<Rightarrow> loadProfile p w = Inl e
           | Panicked \<Rightarrow> True)"
    using Retrieve_error_only_from_profile [of p w]
    by (auto split: outcome.splits option.splits)
  from readConf_cases [of f w] lcp same err show ?thesis by simp
qed

lemma broken_cache_example:
  "map_option fst (loadCachedCreds (provider_ex ''prod'') world_corrupt) = Some creds_zero
   \<and> fst (Retrieve (provider_ex ''prod'') world_corrupt)
       = fst (Retrieve ((provider_ex ''prod'')\<lparr>Cache :=
                Some (FileCacheImpl ((NewFileCache [] world_ex)\<lparr>data := Some Map.empty\<rparr>))\<rparr>)
              world_corrupt)"
proof -
  let ?p = "provider_ex ''prod''" and ?w = world_corrupt
  let ?f = "NewFileCache [] world_ex"
  have c: "Cache ?p = Some (FileCacheImpl ?f)" by (simp add: run_defs)
  have fresh: "data ?f = None" by (simp add: run_defs)
  have broken: "cache_broken ?w ?f" by (simp add: cache_broken_def run_defs)
  from broken_cache_is_empty_cache [OF c fresh broken]
  show ?thesis by simp
qed

section \<open>The claims\<close>

text \<open>
  Claim C1 (the code departs from it). The profile \<open>secure\<close> names an MFA device and
  the token source fails with \<open>EOF\<close>. \<^verbatim>\<open>retrieve\<close> stops before any role-assumption
  request and hands the error to \<^verbatim>\<open>Retrieve\<close>, which never looks at it: the caller gets
  credentials that carry only the provider name, and a \<^verbatim>\<open>nil\<close> error.
\<close>

theorem token_source_error_is_dropped:
  "loadProfile (provider_ex ''secure'') world_token_fails = Inr prof_secure
   \<and> MFASerial prof_secure = Some ''arn:aws:iam::1:mfa/Y''
   \<and> PromptTokenSource world_token_fails (trace world_token_fails) = ([], Some (Error ''EOF''))
   \<and> fst (Retrieve (provider_ex ''secure'') world_token_fails)
        = Returned (Value_zero\<lparr>Value_ProviderName := ProviderName\<rparr>) None
   \<and> trace (snd (snd (Retrieve (provider_ex ''secure'') world_token_fails))) = [GetTokenCall]"
  by (simp add: run_defs)

text \<open>
  Claim C2 (the code departs from it). The cache holds an expired record and the
  role-assumption request fails with \<open>AccessDenied\<close>. \<^verbatim>\<open>Retrieve\<close> returns credentials
  that carry only the provider name, and a \<^verbatim>\<open>nil\<close> error: the failure of the exchange does
  not reach the caller.
\<close>

theorem role_assumption_error_is_dropped:
  "map_option fst (loadCachedCreds (provider_ex ''prod'') world_sts_fails) = Some rec_ex
   \<and> sts_AssumeRole world_sts_fails [] ''dev''
        \<lparr>DurationSeconds = Some 900, RoleArn = Some ''arn:aws:iam::1:role/X'',
         Input_RoleSessionName = Some ''3001'', ExternalId = None,
         SerialNumber = None, TokenCode = None\<rparr> = Inl (Error ''AccessDenied'')
   \<and> fst (Retrieve (provider_ex ''prod'') world_sts_fails)
        = Returned (Value_zero\<lparr>Value_ProviderName := ProviderName\<rparr>) None
   \<and> trace (snd (snd (Retrieve (provider_ex ''prod'') world_sts_fails)))
        = [AssumeRoleCall ''dev''
             \<lparr>DurationSeconds = Some 900, RoleArn = Some ''arn:aws:iam::1:role/X'',
              Input_RoleSessionName = Some ''3001'', ExternalId = None,
              SerialNumber = None, TokenCode = None\<rparr>]"
  by (simp add: run_defs)

text \<open>
  Claim C3, as stated, fails at the boundary: a record whose expiration equals the current
  reading of the clock is not strictly in the future, and \<^verbatim>\<open>Retrieve\<close> still returns its
  credentials without a live refresh, since \<^verbatim>\<open>IsExpired\<close> tests \<^verbatim>\<open>Before\<close>, which is strict.
\<close>

theorem expiry_boundary_counterexample:
  "\<not> (unixNanos (fst (time_Now world_boundary))
         < unixNanos (Expiration rec_ex) - ExpiryWindow (provider_ex ''prod''))
   \<and> map_option fst (loadCachedCreds (provider_ex ''prod'') world_boundary) = Some rec_ex
   \<and> fst (Retrieve (provider_ex ''prod'') world_boundary) = Returned (Credentials rec_ex) None
   \<and> trace (snd (snd (Retrieve (provider_ex ''prod'') world_boundary))) = trace world_boundary"
  by (simp add: run_defs)

text \<open>
  Claim C3, amended. With no early-refresh window configured (a window of 0 or less), a
  cached record whose expiration is before the current time is never a cache hit, and
  \<^verbatim>\<open>Retrieve\<close> performs a live refresh: the token source or the role-assumption service is
  called. So a record is used only if its expiration is not before the current time.
\<close>

theorem expired_record_forces_refresh:
  assumes win: "ExpiryWindow p \<le> 0"
    and lp: "loadProfile p w = Inr prof"
    and lc: "loadCachedCreds p w = Some (cached, p1)"
    and expired: "Time_Before (Expiration cached) (fst (time_Now w))"
  shows "\<not> cache_hit cached prof w
       \<and> (\<exists>e es. trace (snd (snd (Retrieve p w))) = trace w @ e # es)"
proof -
  from expired have miss: "\<not> cache_hit cached prof w"
    by (simp add: cache_hit_def IsExpired_eq Time_Before_def)
  let ?w1 = "after_cache_test cached prof w"
  obtain r p2 w2 where r: "retrieve (with_default_token p1 ?w1) prof ?w1 = (r, p2, w2)"
    by (cases "retrieve (with_default_token p1 ?w1) prof ?w1")
  obtain g where g: "GetToken (with_default_token p1 ?w1) = Some g"
    using with_default_token_Some by blast
  from retrieve_extends_trace [OF r g] Retrieve_miss_trace [OF lp lc miss r] miss
  show ?thesis by simp
qed

text \<open>The amended claim at a record that expired at 2000, read at 3000.\<close>

theorem expired_record_witness:
  "Time_Before (Expiration rec_ex) (fst (time_Now world_late))
   \<and> trace (snd (snd (Retrieve (provider_ex ''prod'') world_late))) \<noteq> []"
proof -
  let ?p = "provider_ex ''prod''" and ?w = world_late
  let ?p1 = "snd (the (loadCachedCreds ?p ?w))"
  have win: "ExpiryWindow ?p \<le> 0" by (simp add: run_defs)
  have lp: "loadProfile ?p ?w = Inr prof_prod" by (simp add: run_defs)
  have lc: "loadCachedCreds ?p ?w = Some (rec_ex, ?p1)" by (simp add: run_defs)
  have expired: "Time_Before (Expiration rec_ex) (fst (time_Now ?w))" by (simp add: run_defs)
  have tr: "trace ?w = []" by (simp add: run_defs)
  from expired_record_forces_refresh [OF win lp lc expired] expired tr
  show ?thesis by auto
qed

text \<open>
  Claim C4. Whenever the cached record matches the loaded profile and has not expired,
  \<^verbatim>\<open>Retrieve\<close> returns the cached credentials and nothing is observed outside: no
  role-assumption request and no call of the token source. Moreover a second call right
  after, if the record is still not expired at its reading of the clock and the cache
  answers \<^verbatim>\<open>Get\<close> as before (which a \<^verbatim>\<open>FileCache\<close> always does), returns the same credentials,
  again with no call.
\<close>

theorem cache_hit_needs_no_refresh:
  assumes lp: "loadProfile p w = Inr prof"
    and lc: "loadCachedCreds p w = Some (cached, p1)"
    and m: "Match cached prof"
    and ne: "\<not> fst (IsExpired cached w)"
    and first: "Retrieve p w = (r1, p', w')"
  shows "r1 = Returned (Credentials cached) None \<and> trace w' = trace w
       \<and> (\<forall>c r2 p'' w''.
             Cache p = Some c \<and> Get_repeatable c ''credentials''
             \<and> \<not> fst (IsExpired cached w') \<and> Retrieve p' w' = (r2, p'', w'')
             \<longrightarrow> r2 = Returned (Credentials cached) None \<and> trace w'' = trace w)"
proof -
  from m ne have hit: "cache_hit cached prof w" by (simp add: cache_hit_def)
  from Retrieve_hit [OF lp lc hit] first
  have r1: "r1 = Returned (Credentials cached) None" and p': "p' = p1"
    and w': "w' = after_cache_test cached prof w"
    by simp_all
  from w' have tr: "trace w' = trace w" by simp
  from w' m have w'_eq: "w' = w\<lparr>ticks := ticks w + 1\<rparr>"
    by (simp add: after_cache_test_def IsExpired_eq time_Now_def)
  have again: "r2 = Returned (Credentials cached) None \<and> trace w'' = trace w"
    if c: "Cache p = Some c" and rep: "Get_repeatable c ''credentials''"
      and ne2: "\<not> fst (IsExpired cached w')" and second: "Retrieve p' w' = (r2, p'', w'')"
    for c r2 p'' w''
  proof -
    from lc c have cached: "cached = decode_entry w (fst (Cache_Get c ''credentials'' w))"
      and p1: "p1 = p\<lparr>Cache := Some (snd (Cache_Get c ''credentials'' w))\<rparr>"
      by (simp_all add: loadCachedCreds_eq)
    have lp2: "loadProfile p' w' = Inr prof"
      using lp loadProfile_frame [of p' p w' w] by (simp add: p' p1 w'_eq)
    have lc2: "loadCachedCreds p' w' =
                 Some (cached, p'\<lparr>Cache := Some (snd (Cache_Get (snd (Cache_Get c ''credentials'' w))
                                                 ''credentials'' w'))\<rparr>)"
      using Cache_Get_again [OF rep, of w' w] decode_entry_frame [of w' w]
      by (simp add: loadCachedCreds_eq p' p1 cached w'_eq)
    from m ne2 have hit2: "cache_hit cached prof w'" by (simp add: cache_hit_def)
    from Retrieve_hit [OF lp2 lc2 hit2] second
    have "r2 = Returned (Credentials cached) None" and "w'' = after_cache_test cached prof w'"
      by simp_all
    with tr show ?thesis by simp
  qed
  from r1 tr again show ?thesis by blast
qed

text \<open>Two calls in a row on a file cache that holds a valid record.\<close>

theorem cache_hit_witness:
  "fst (Retrieve (provider_ex ''prod'') world_ex) = Returned (Credentials rec_ex) None
   \<and> trace (snd (snd (Retrieve (provider_ex ''prod'') world_ex))) = []
   \<and> fst (Retrieve (fst (snd (Retrieve (provider_ex ''prod'') world_ex)))
                    (snd (snd (Retrieve (provider_ex ''prod'') world_ex))))
        = Returned (Credentials rec_ex) None
   \<and> trace (snd (snd (Retrieve (fst (snd (Retrieve (provider_ex ''prod'') world_ex)))
                    (snd (snd (Retrieve (provider_ex ''prod'') world_ex)))))) = []"
proof -
  let ?p = "provider_ex ''prod''" and ?w = world_ex
  let ?c = "FileCacheImpl (NewFileCache [] world_ex)"
  let ?p1 = "snd (the (loadCachedCreds ?p ?w))"
  let ?R = "Retrieve ?p ?w"
  let ?R2 = "Retrieve (fst (snd ?R)) (snd (snd ?R))"
  have lp: "loadProfile ?p ?w = Inr prof_prod" by (simp add: run_defs)
  have lc: "loadCachedCreds ?p ?w = Some (rec_ex, ?p1)" by (simp add: run_defs)
  have m: "Match rec_ex prof_prod" by (simp add: run_defs)
  have ne: "\<not> fst (IsExpired rec_ex ?w)" by (simp add: run_defs)
  have first: "?R = (fst ?R, fst (snd ?R), snd (snd ?R))" by simp
  have c: "Cache ?p = Some ?c" by (simp add: run_defs)
  have rep: "Get_repeatable ?c ''credentials''" by (simp add: Get_repeatable_def)
  have ne2: "\<not> fst (IsExpired rec_ex (snd (snd ?R)))" by (simp add: run_defs)
  have second: "?R2 = (fst ?R2, fst (snd ?R2), snd (snd ?R2))" by simp
  have tr: "trace ?w = []" by (simp add: run_defs)
  from cache_hit_needs_no_refresh [OF lp lc m ne first]
  have one: "fst ?R = Returned (Credentials rec_ex) None" "trace (snd (snd ?R)) = trace ?w"
    and two: "\<forall>c r2 p'' w''.
             Cache ?p = Some c \<and> Get_repeatable c ''credentials''
             \<and> \<not> fst (IsExpired rec_ex (snd (snd ?R))) \<and> ?R2 = (r2, p'', w'')
             \<longrightarrow> r2 = Returned (Credentials rec_ex) None \<and> trace w'' = trace ?w"
    by blast+
  from two c rep ne2 second
  have "fst ?R2 = Returned (Credentials rec_ex) None \<and> trace (snd (snd ?R2)) = trace ?w"
    by blast
  with one tr show ?thesis by simp
qed

text \<open>
  Claim C5. A cached record whose profile differs from the loaded profile in any one of
  the six fields (for the optional fields also absent against present, \<open>None\<close> against
  \<open>Some\<close>) does not match, is no cache hit, and \<^verbatim>\<open>Retrieve\<close> performs a live refresh.
\<close>

theorem mismatching_profile_is_no_hit:
  assumes lp: "loadProfile p w = Inr prof"
    and lc: "loadCachedCreds p w = Some (cached, p1)"
    and diff: "Name (Profile cached) \<noteq> Name prof
             \<or> RoleARN (Profile cached) \<noteq> RoleARN prof
             \<or> SourceProfileName (Profile cached) \<noteq> SourceProfileName prof
             \<or> RoleSessionName (Profile cached) \<noteq> RoleSessionName prof
             \<or> MFASerial (Profile cached) \<noteq> MFASerial prof
             \<or> ExternalID (Profile cached) \<noteq> ExternalID prof"
  shows "\<not> Match cached prof \<and> \<not> cache_hit cached prof w
       \<and> (\<exists>e es. trace (snd (snd (Retrieve p w))) = trace w @ e # es)"
proof -
  from diff have nm: "\<not> Match cached prof" by (auto simp add: Match_def)
  then have miss: "\<not> cache_hit cached prof w" by (simp add: cache_hit_def)
  let ?w1 = "after_cache_test cached prof w"
  obtain r p2 w2 where r: "retrieve (with_default_token p1 ?w1) prof ?w1 = (r, p2, w2)"
    by (cases "retrieve (with_default_token p1 ?w1) prof ?w1")
  obtain g where g: "GetToken (with_default_token p1 ?w1) = Some g"
    using with_default_token_Some by blast
  from retrieve_extends_trace [OF r g] Retrieve_miss_trace [OF lp lc miss r] nm miss
  show ?thesis by simp
qed

text \<open>Scenario C of the specification: \<open>external_id\<close> is added to the profile.\<close>

theorem mismatching_profile_witness:
  "\<not> Match rec_ex (prof_prod\<lparr>ExternalID := Some ''123''\<rparr>)
   \<and> trace (snd (snd (Retrieve (provider_ex ''prod'') world_changed))) \<noteq> []"
proof -
  let ?p = "provider_ex ''prod''" and ?w = world_changed
  let ?prof = "prof_prod\<lparr>ExternalID := Some ''123''\<rparr>"
  let ?p1 = "snd (the (loadCachedCreds ?p ?w))"
  have lp: "loadProfile ?p ?w = Inr ?prof" by (simp add: run_defs)
  have lc: "loadCachedCreds ?p ?w = Some (rec_ex, ?p1)" by (simp add: run_defs)
  have diff: "Name (Profile rec_ex) \<noteq> Name ?prof
             \<or> RoleARN (Profile rec_ex) \<noteq> RoleARN ?prof
             \<or> SourceProfileName (Profile rec_ex) \<noteq> SourceProfileName ?prof
             \<or> RoleSessionName (Profile rec_ex) \<noteq> RoleSessionName ?prof
             \<or> MFASerial (Profile rec_ex) \<noteq> MFASerial ?prof
             \<or> ExternalID (Profile rec_ex) \<noteq> ExternalID ?prof"
    by (simp add: run_defs)
  have tr: "trace ?w = []" by (simp add: run_defs)
  from mismatching_profile_is_no_hit [OF lp lc diff] tr
  show ?thesis by auto
qed

text \<open>
  Claim C6 (the code departs from it). \<^verbatim>\<open>NewCredentials\<close> with no option leaves the field
  \<open>Cache\<close> \<^verbatim>\<open>nil\<close>; no file cache is put in its place. Once the profile has loaded,
  \<^verbatim>\<open>loadCachedCreds\<close> calls \<^verbatim>\<open>Get\<close> on the \<^verbatim>\<open>nil\<close> interface and \<^verbatim>\<open>Retrieve\<close> panics.
\<close>

theorem no_cache_option_panics:
  "Cache (NewCredentials ''prod'' [] world_ex) = None
   \<and> loadProfile (NewCredentials ''prod'' [] world_ex) world_ex = Inr prof_prod
   \<and> fst (Retrieve (NewCredentials ''prod'' [] world_ex) world_ex) = Panicked"
  by (simp add: run_defs)

text \<open>
  Claim C7. When the profile has no MFA device identifier, a live refresh never invokes the
  token source: the only thing observed outside is one role-assumption request, signed by
  the source profile, whose serial number and token code are both absent.
\<close>

theorem no_MFA_never_invokes_token_source:
  assumes lp: "loadProfile p w = Inr prof" and lc: "loadCachedCreds p w = Some (cached, p1)"
    and miss: "\<not> cache_hit cached prof w"
    and no_mfa: "MFASerial prof = None"
  shows "trace (snd (snd (Retrieve p w))) =
           trace w @ [AssumeRoleCall (SourceProfileName prof)
                        (request_params p1 prof (after_cache_test cached prof w))]
       \<and> SerialNumber (request_params p1 prof (after_cache_test cached prof w)) = None
       \<and> TokenCode (request_params p1 prof (after_cache_test cached prof w)) = None"
proof -
  let ?w1 = "after_cache_test cached prof w"
  let ?p1 = "with_default_token p1 ?w1"
  obtain r p2 w2 where r: "retrieve ?p1 prof ?w1 = (r, p2, w2)"
    by (cases "retrieve ?p1 prof ?w1")
  then have "exchange (with_default_duration ?p1 ?w1) (SourceProfileName prof)
               (request_params ?p1 prof ?w1) (session_world prof ?w1) = (r, p2, w2)"
    by (simp add: retrieve_no_MFA [OF no_mfa])
  from exchange_trace [OF this]
  have "trace w2 = trace w @ [AssumeRoleCall (SourceProfileName prof) (request_params p1 prof ?w1)]"
    by simp
  with Retrieve_miss_trace [OF lp lc miss r] show ?thesis by simp
qed

text \<open>Scenario A of the specification: profile \<open>prod\<close>, no MFA, empty cache.\<close>

theorem no_MFA_witness:
  "trace (snd (snd (Retrieve (provider_ex ''prod'') world_empty))) =
     [AssumeRoleCall ''dev''
        \<lparr>DurationSeconds = Some 900, RoleArn = Some ''arn:aws:iam::1:role/X'',
         Input_RoleSessionName = Some ''1000'', ExternalId = None,
         SerialNumber = None, TokenCode = None\<rparr>]"
proof -
  let ?p = "provider_ex ''prod''"
  let ?p1 = "snd (the (loadCachedCreds ?p world_empty))"
  have lc: "loadCachedCreds ?p world_empty = Some (creds_zero, ?p1)"
    by (simp add: example_defs model_defs Let_def)
  have miss: "\<not> cache_hit creds_zero prof_prod world_empty"
    by (simp add: example_defs model_defs)
  have no_mfa: "MFASerial prof_prod = None"
    by (simp add: prof_prod_def)
  have rp: "request_params ?p1 prof_prod (after_cache_test creds_zero prof_prod world_empty) =
     \<lparr>DurationSeconds = Some 900, RoleArn = Some ''arn:aws:iam::1:role/X'',
       Input_RoleSessionName = Some ''1000'', ExternalId = None,
       SerialNumber = None, TokenCode = None\<rparr>"
    by (simp add: example_defs model_defs Let_def decimal.simps)
  have tr: "trace world_empty = []" "SourceProfileName prof_prod = ''dev''"
    by (simp_all add: example_defs)
  from no_MFA_never_invokes_token_source [OF loadProfile_prod lc miss no_mfa]
  show ?thesis unfolding rp tr by simp
qed

text \<open>
  Claim C8 (the code departs from it). The backing file of the file cache holds the JSON
  value \<^verbatim>\<open>null\<close>. \<^verbatim>\<open>Get\<close> finds no record, the role-assumption request is granted and
  \<^verbatim>\<open>retrieve\<close> returns the new credentials, the expiry in UTC. Then the \<^verbatim>\<open>Set\<close> that should
  store the record runs \<^verbatim>\<open>readConf\<close>, which leaves \<^verbatim>\<open>f.data\<close> \<^verbatim>\<open>nil\<close> again, and the
  assignment into the \<^verbatim>\<open>nil\<close> map panics: \<^verbatim>\<open>Retrieve\<close> stores nothing and returns nothing.
\<close>

theorem granted_exchange_then_Set_panics:
  "files world_null ''/tmp/credentials'' = Present True True ''null''
   \<and> json_Decode_map world_null ''null'' = Decoded None None
   \<and> loadProfile (provider_ex ''prod'') world_null = Inr prof_prod
   \<and> loadCachedCreds (provider_ex ''prod'') world_null = Some (creds_zero, provider_ex ''prod'')
   \<and> fst (retrieve (with_default_token (provider_ex ''prod'') world_null) prof_prod world_null)
        = Some (fresh_Value, \<lparr>unixNanos = 5000, location = UTC\<rparr>, None)
   \<and> trace (snd (snd (Retrieve (provider_ex ''prod'') world_null)))
        = [AssumeRoleCall ''dev''
             \<lparr>DurationSeconds = Some 900, RoleArn = Some ''arn:aws:iam::1:role/X'',
              Input_RoleSessionName = Some ''1000'', ExternalId = None,
              SerialNumber = None, TokenCode = None\<rparr>]
   \<and> FileCache_Set (NewFileCache [] world_ex) ''credentials'' ''{fresh}'' world_null = None
   \<and> fst (Retrieve (provider_ex ''prod'') world_null) = Panicked"
  by (simp add: more_worlds run_defs)

text \<open>
  Claim C9 (the code departs from it), at two states of the cache in which the entry is
  missing or malformed. First, the backing file holds \<^verbatim>\<open>null\<close>: the entry is missing and
  the record is the zero value, but \<^verbatim>\<open>Retrieve\<close> panics in \<^verbatim>\<open>Set\<close>, where on a cache
  initialised empty it returns the fresh credentials. Second, the entry is well-formed JSON
  with a field of the wrong type: \<^verbatim>\<open>json.Unmarshal\<close> reports an error, which
  \<^verbatim>\<open>loadCachedCreds\<close> drops, and leaves the record half filled; it matches the profile, has
  not expired, and is served without a refresh, where the empty cache refreshes.
\<close>

theorem unusable_entry_is_not_an_empty_cache:
  "fst (FileCache_Get (NewFileCache [] world_ex) ''credentials'' world_null) = ([], False)
   \<and> map_option fst (loadCachedCreds (provider_ex ''prod'') world_null) = Some creds_zero
   \<and> fst (Retrieve (provider_ex ''prod'') world_null) = Panicked
   \<and> fst (Retrieve provider_empty_cache world_null) = Returned fresh_Value None
   \<and> json_Unmarshal_creds world_illtyped ''{record}''
        = Decoded rec_half (Some (Error ''cannot unmarshal number into Go struct field''))
   \<and> map_option fst (loadCachedCreds (provider_ex ''prod'') world_illtyped) = Some rec_half
   \<and> rec_half \<noteq> creds_zero
   \<and> fst (Retrieve (provider_ex ''prod'') world_illtyped) = Returned (Credentials rec_half) None
   \<and> trace (snd (snd (Retrieve (provider_ex ''prod'') world_illtyped))) = []
   \<and> fst (Retrieve provider_empty_cache world_illtyped) = Returned fresh_Value None"
  by (simp add: more_worlds run_defs)

text \<open>
  Claim C10 (the code departs from it). The backing file of the file cache holds
  \<^verbatim>\<open>null\<close> and the role-assumption request is denied. \<^verbatim>\<open>retrieve\<close> returns the zero
  credentials with the provider name, the reading of the clock and the error; the record
  serialises; then \<^verbatim>\<open>Set\<close> panics on the \<^verbatim>\<open>nil\<close> map, so \<^verbatim>\<open>Retrieve\<close> neither stores the
  record nor returns.
\<close>

theorem failed_refresh_then_Set_panics:
  "loadProfile (provider_ex ''prod'') world_null_sts_fails = Inr prof_prod
   \<and> loadCachedCreds (provider_ex ''prod'') world_null_sts_fails
        = Some (creds_zero, provider_ex ''prod'')
   \<and> fst (retrieve (with_default_token (provider_ex ''prod'') world_null_sts_fails) prof_prod
             world_null_sts_fails)
        = Some (Value_zero\<lparr>Value_ProviderName := ProviderName\<rparr>,
                \<lparr>unixNanos = 1001, location = Local\<rparr>, Some (Error ''AccessDenied''))
   \<and> json_Marshal_creds world_null_sts_fails
        \<lparr>Credentials = Value_zero\<lparr>Value_ProviderName := ProviderName\<rparr>,
         Expiration = \<lparr>unixNanos = 1001, location = Local\<rparr>, Profile = prof_prod\<rparr>
        = (''{fresh}'', None)
   \<and> FileCache_Set (NewFileCache [] world_ex) ''credentials'' ''{fresh}'' world_null_sts_fails
        = None
   \<and> fst (Retrieve (provider_ex ''prod'') world_null_sts_fails) = Panicked"
  by (simp add: more_worlds run_defs)

end
